theory Spec2Isabelle
  imports Complex_Main "HOL-Library.Char_ord" "HOL-Library.List_Lexorder"
begin

section \<open>Numbers, dates and the shared record types\<close>

text \<open>
  A TypeScript \<open>number\<close> is modelled as a real: every finite value the code can be given,
  with exact arithmetic. Where the source divides by a quantity that is zero on an input
  the function accepts, the quotient is an option and \<open>None\<close> stands for the value that is
  not a number. An ISO timestamp string is modelled by the instant it denotes, in
  milliseconds since the epoch (what \<open>new Date(s).getTime()\<close> returns); the local time zone
  is taken to be UTC. The clock read by \<open>new Date()\<close> and \<open>Date.now()\<close> is the explicit
  argument \<open>now\<close>, one value for the whole call.
\<close>

type_synonym timestamp = int

datatype error = TypeError

datatype unknown = JString string | JNumber real | JBoolean bool | JNull

datatype MetricType =
    accuracy_rate | response_time | session_duration | words_per_minute
  | retention_rate | motivation_score | difficulty_preference

record LearningDataPoint =
  dp_timestamp :: timestamp
  dp_metric_type :: MetricType
  dp_value :: real
  dp_metadata :: "(string \<times> unknown) list option"

record SpacedRepetitionState =
  sr_next_review_date :: timestamp
  sr_ease_factor :: real
  sr_next_interval :: real
  sr_repetition_number :: real

record WordLearningMetrics =
  wm_word_id :: string
  wm_encounter_count :: real
  wm_correct_count :: real
  wm_incorrect_count :: real
  wm_avg_response_time :: real
  wm_first_seen :: timestamp
  wm_last_seen :: timestamp
  wm_confidence_score :: real
  wm_retention_estimate :: real
  wm_next_review_date :: timestamp
  wm_spaced_repetition_data :: "SpacedRepetitionState option"

text \<open>\<open>Math.round\<close>: the nearest integer, a tie going up.\<close>

definition Math_round :: "real \<Rightarrow> real" where
  "Math_round x = of_int \<lfloor>x + 1 / 2\<rfloor>"

definition Math_ceil :: "real \<Rightarrow> real" where
  "Math_ceil x = of_int \<lceil>x\<rceil>"

text \<open>A quotient whose divisor can be zero: \<open>None\<close> is the result that is not a finite number.\<close>

definition js_div :: "real \<Rightarrow> real \<Rightarrow> real option" where
  "js_div a b = (if b = 0 then None else Some (a / b))"

definition msPerDay :: int where
  "msPerDay = 1000 * 60 * 60 * 24"

definition getDaysBetween :: "timestamp \<Rightarrow> timestamp \<Rightarrow> real" where
  "getDaysBetween start end =
     (let diffTime = \<bar>end - start\<bar>
      in Math_ceil (of_int diffTime / of_int msPerDay))"

text \<open>\<open>setDate(getDate() + days)\<close> on a UTC clock moves the instant by whole days.\<close>

definition addDays :: "timestamp \<Rightarrow> real \<Rightarrow> timestamp" where
  "addDays date days = date + \<lfloor>days\<rfloor> * msPerDay"

section \<open>Forgetting-curve engine\<close>

record ForgettingCurveModel =
  fm_word_id :: string
  fm_initial_strength :: real
  fm_decay_rate :: real
  fm_stability_factor :: real
  fm_retrieval_strength :: real
  fm_optimal_interval :: real
  fm_confidence_level :: real

datatype review_priority = urgent | due | optional | too_early

text \<open>The reasoning strings, by the template each one is built from.\<close>

datatype reasoning =
    PredictedSuccessPercent real
  | DaysSinceLastReview real
  | HighConfidence
  | ModerateConfidence
  | StrongStability
  | UnstableMemory

record ReviewPrediction =
  rp_word_id :: string
  rp_success_probability :: real
  rp_recommended_delay :: real
  rp_difficulty_adjustment :: real
  rp_review_priority :: review_priority
  rp_reasoning :: "reasoning list"

record SpacedRepetitionSchedule =
  sch_word_id :: string
  sch_next_review_date :: timestamp
  sch_interval_days :: real
  sch_ease_factor :: real
  sch_repetition_number :: real
  sch_last_quality :: real

definition defaultDecayRate :: real where "defaultDecayRate = 0.1"
definition targetRetention :: real where "targetRetention = 0.85"
definition minInterval :: real where "minInterval = 1"
definition maxInterval :: real where "maxInterval = 365"

subsection \<open>Scheduling\<close>

definition generateSpacedRepetitionSchedule ::
  "WordLearningMetrics \<Rightarrow> timestamp \<Rightarrow> real \<Rightarrow> SpacedRepetitionSchedule" where
  "generateSpacedRepetitionSchedule wordMetrics lastReviewDate lastQuality =
     (case wm_spaced_repetition_data wordMetrics of
        None \<Rightarrow>
          \<lparr> sch_word_id = wm_word_id wordMetrics,
            sch_next_review_date = addDays lastReviewDate 1,
            sch_interval_days = 1,
            sch_ease_factor = 2.5,
            sch_repetition_number = 1,
            sch_last_quality = lastQuality \<rparr>
      | Some spacedRepData \<Rightarrow>
          (let easeFactor0 = sr_ease_factor spacedRepData;
               interval0 = sr_next_interval spacedRepData;
               repetitionNumber0 = sr_repetition_number spacedRepData;
               (easeFactor1, interval1, repetitionNumber) =
                 (if lastQuality \<ge> 3 then
                    ((easeFactor0 + (0.1 - (5 - lastQuality) * (0.08 + (5 - lastQuality) * 0.02))),
                     (if repetitionNumber0 = 1 then 6
                      else if repetitionNumber0 = 2 then Math_round (interval0 * easeFactor0)
                      else Math_round (interval0 * easeFactor0)),
                     repetitionNumber0)
                  else (easeFactor0, 1, 0));
               easeFactor = max 1.3 easeFactor1;
               interval = max minInterval (min maxInterval interval1)
           in \<lparr> sch_word_id = wm_word_id wordMetrics,
                sch_next_review_date = addDays lastReviewDate interval,
                sch_interval_days = interval,
                sch_ease_factor = Math_round (easeFactor * 100) / 100,
                sch_repetition_number = repetitionNumber + 1,
                sch_last_quality = lastQuality \<rparr>))"

text \<open>
  The caller's \<open>updateWordSchedule\<close> (the spaced-repetition hook) writes a schedule back into
  the stored state of the item and stamps \<open>last_seen\<close> with the clock.
\<close>

definition updateWordSchedule ::
  "timestamp \<Rightarrow> WordLearningMetrics \<Rightarrow> SpacedRepetitionSchedule \<Rightarrow> WordLearningMetrics" where
  "updateWordSchedule now wordMetrics schedule =
     wordMetrics
       \<lparr> wm_spaced_repetition_data :=
           Some \<lparr> sr_next_review_date = sch_next_review_date schedule,
                  sr_ease_factor = sch_ease_factor schedule,
                  sr_next_interval = sch_interval_days schedule,
                  sr_repetition_number = sch_repetition_number schedule \<rparr>,
         wm_last_seen := now \<rparr>"

subsection \<open>Prediction\<close>

definition calculateRecommendedDelay :: "ForgettingCurveModel \<Rightarrow> real \<Rightarrow> real \<Rightarrow> real" where
  "calculateRecommendedDelay model successProbability daysSinceLastReview =
     (if successProbability > 0.9 then min maxInterval (fm_optimal_interval model * 1.5)
      else if successProbability < 0.7 then 0
      else max 0 (fm_optimal_interval model - daysSinceLastReview))"

definition determinePriority :: "real \<Rightarrow> real \<Rightarrow> real \<Rightarrow> review_priority" where
  "determinePriority successProbability daysSinceLastReview optimalInterval =
     (if successProbability < 0.5 then urgent
      else if daysSinceLastReview \<ge> optimalInterval then due
      else if daysSinceLastReview \<ge> optimalInterval * 0.8 then optional
      else too_early)"

definition calculateDifficultyAdjustment :: "real \<Rightarrow> real" where
  "calculateDifficultyAdjustment successProbability =
     (if successProbability > 0.9 then 0.3
      else if successProbability < 0.6 then - 0.3
      else 0)"

definition generatePredictionReasoning ::
  "real \<Rightarrow> real \<Rightarrow> ForgettingCurveModel \<Rightarrow> reasoning list" where
  "generatePredictionReasoning successProbability daysSinceLastReview model =
     [PredictedSuccessPercent (Math_round (successProbability * 100)),
      DaysSinceLastReview daysSinceLastReview]
     @ (if fm_confidence_level model > 0.7 then [HighConfidence] else [ModerateConfidence])
     @ (if fm_stability_factor model > 0.8 then [StrongStability]
        else if fm_stability_factor model < 0.4 then [UnstableMemory]
        else [])"

text \<open>
  \<open>Math.exp\<close> is the real exponential here. On doubles it overflows for a large positive
  argument, and the product with a retrieval strength of 0 is then not a number; the
  argument \<open>- decay_rate * days\<close> is at most 0, and the two agree, when the decay rate
  and the number of days are not negative. The engine supplies such values: a decay rate
  clamped to [0.01, 0.5] and a number of days that is a ceiling of an absolute difference.
  The properties of the prediction below are stated under that condition.
\<close>

definition predictReviewSuccess :: "ForgettingCurveModel \<Rightarrow> real \<Rightarrow> ReviewPrediction" where
  "predictReviewSuccess model daysSinceLastReview =
     (let timeDecay = exp (- fm_decay_rate model * daysSinceLastReview);
          currentRetention = fm_retrieval_strength model * timeDecay;
          stabilityBonus = fm_stability_factor model * 0.2;
          successProbability = min 0.95 (currentRetention + stabilityBonus);
          recommendedDelay = calculateRecommendedDelay model successProbability daysSinceLastReview;
          priority =
            determinePriority successProbability daysSinceLastReview (fm_optimal_interval model);
          difficultyAdjustment = calculateDifficultyAdjustment successProbability;
          reasoning = generatePredictionReasoning successProbability daysSinceLastReview model
      in \<lparr> rp_word_id = fm_word_id model,
           rp_success_probability = Math_round (successProbability * 10000) / 10000,
           rp_recommended_delay = recommendedDelay,
           rp_difficulty_adjustment = difficultyAdjustment,
           rp_review_priority = priority,
           rp_reasoning = reasoning \<rparr>)"

subsection \<open>The model of one item\<close>

text \<open>\<open>dp.metadata?.word_id === wordId\<close>: the metadata is present and holds that string.\<close>

definition metadata_word_id_is :: "LearningDataPoint \<Rightarrow> string \<Rightarrow> bool" where
  "metadata_word_id_is dp wordId =
     (case dp_metadata dp of
        None \<Rightarrow> False
      | Some md \<Rightarrow> map_of md ''word_id'' = Some (JString wordId))"

text \<open>The two overloads of \<open>getDaysSince\<close>: of a timestamp, and of the last review of a word.\<close>

definition getDaysSince :: "timestamp \<Rightarrow> timestamp \<Rightarrow> real" where
  "getDaysSince now ts = getDaysBetween ts now"

definition getDaysSince_word :: "timestamp \<Rightarrow> string \<Rightarrow> LearningDataPoint list \<Rightarrow> real" where
  "getDaysSince_word now wordId reviewData =
     (let wordReviews = filter (\<lambda>dp. metadata_word_id_is dp wordId) reviewData
      in if length wordReviews = 0 then 999
         else let lastReview = wordReviews ! (length wordReviews - 1)
              in getDaysBetween (dp_timestamp lastReview) now)"

text \<open>Reading \<open>reviews[0].metric_type\<close> of an empty array raises a TypeError.\<close>

definition calculateInitialStrength :: "LearningDataPoint list \<Rightarrow> error + real" where
  "calculateInitialStrength reviews =
     (case reviews of
        [] \<Rightarrow> Inl TypeError
      | firstReview # _ \<Rightarrow>
          if dp_metric_type firstReview = accuracy_rate
          then Inr (max 0.1 (min 0.9 (dp_value firstReview)))
          else Inr 0.3)"

definition calculateDecayRate :: "LearningDataPoint list \<Rightarrow> real" where
  "calculateDecayRate reviews =
     (if length reviews < 3 then defaultDecayRate
      else
        let accuracyReviews = filter (\<lambda>r. dp_metric_type r = accuracy_rate) reviews
        in if length accuracyReviews < 2 then defaultDecayRate
           else
             let firstAccuracy = dp_value (accuracyReviews ! 0);
                 lastAccuracy = dp_value (accuracyReviews ! (length accuracyReviews - 1));
                 timeSpan = getDaysBetween (dp_timestamp (accuracyReviews ! 0))
                              (dp_timestamp (accuracyReviews ! (length accuracyReviews - 1)))
             in if timeSpan = 0 then defaultDecayRate
                else
                  let performanceChange = (lastAccuracy - firstAccuracy) / timeSpan;
                      baseDecayRate = defaultDecayRate
                  in max 0.01 (min 0.5 (baseDecayRate - performanceChange * 0.1)))"

definition calculateConsistencyBonus :: "LearningDataPoint list \<Rightarrow> real" where
  "calculateConsistencyBonus reviews =
     (let accuracyReviews =
            map dp_value (filter (\<lambda>r. dp_metric_type r = accuracy_rate) reviews)
      in if length accuracyReviews < 3 then 0
         else
           let mean = foldl (\<lambda>sum v. sum + v) 0 accuracyReviews
                        / of_nat (length accuracyReviews);
               variance = foldl (\<lambda>sum v. sum + (v - mean)\<^sup>2) 0 accuracyReviews
                            / of_nat (length accuracyReviews)
           in max 0 (0.2 - variance))"

definition calculateStabilityFactor ::
  "WordLearningMetrics \<Rightarrow> LearningDataPoint list \<Rightarrow> real" where
  "calculateStabilityFactor wordMetrics reviews =
     (let encounterCount = wm_encounter_count wordMetrics;
          correctCount = wm_correct_count wordMetrics;
          accuracy = (if encounterCount > 0 then correctCount / encounterCount else 0);
          baseStability = min 0.9 (accuracy * 0.8);
          consistencyBonus = calculateConsistencyBonus reviews
      in max 0.1 (baseStability + consistencyBonus))"

definition calculateCurrentRetrievalStrength ::
  "timestamp \<Rightarrow> WordLearningMetrics \<Rightarrow> LearningDataPoint list \<Rightarrow> real \<Rightarrow> real" where
  "calculateCurrentRetrievalStrength now wordMetrics reviews decayRate =
     (if reviews = [] then 0.3
      else
        let lastReview = reviews ! (length reviews - 1);
            daysSinceLastReview = getDaysSince now (dp_timestamp lastReview);
            lastPerformance =
              (if dp_metric_type lastReview = accuracy_rate then dp_value lastReview else 0.5);
            timeDecay = exp (- decayRate * daysSinceLastReview)
        in max 0.05 (lastPerformance * timeDecay))"

definition calculateOptimalInterval :: "real \<Rightarrow> real \<Rightarrow> real \<Rightarrow> real" where
  "calculateOptimalInterval retrievalStrength stabilityFactor decayRate =
     (let adjustedRetention = max 0.1 (retrievalStrength * stabilityFactor)
      in if adjustedRetention \<le> targetRetention then minInterval
         else
           let interval = ln (targetRetention / adjustedRetention) / (- decayRate)
           in max minInterval (min maxInterval (Math_round interval)))"

definition calculateModelConfidence :: "timestamp \<Rightarrow> LearningDataPoint list \<Rightarrow> real" where
  "calculateModelConfidence now reviews =
     (let dataPoints = of_nat (length reviews);
          baseConfidence = min 0.9 (dataPoints / 20);
          recentReviews =
            of_nat (length (filter (\<lambda>r. getDaysSince now (dp_timestamp r) < 30) reviews));
          recencyBonus = min 0.1 (recentReviews / 10)
      in max 0.1 (baseConfidence + recencyBonus))"

text \<open>
  The comparator of \<open>sort\<close> subtracts the two instants, and the sort is stable: events with
  the same instant keep their order.
\<close>

definition calculateForgettingCurve ::
  "timestamp \<Rightarrow> WordLearningMetrics \<Rightarrow> LearningDataPoint list \<Rightarrow> error + ForgettingCurveModel"
  where
  "calculateForgettingCurve now wordMetrics reviewHistory =
     (let reviews =
            sort_key dp_timestamp
              (filter (\<lambda>dp. metadata_word_id_is dp (wm_word_id wordMetrics)) reviewHistory)
      in if length reviews = 0 then
           Inr \<lparr> fm_word_id = wm_word_id wordMetrics,
                 fm_initial_strength = 0.3,
                 fm_decay_rate = defaultDecayRate,
                 fm_stability_factor = 0.5,
                 fm_retrieval_strength = 0.3,
                 fm_optimal_interval = 1,
                 fm_confidence_level = 0.2 \<rparr>
         else
           (case calculateInitialStrength reviews of
              Inl e \<Rightarrow> Inl e
            | Inr initialStrength \<Rightarrow>
                let decayRate = calculateDecayRate reviews;
                    stabilityFactor = calculateStabilityFactor wordMetrics reviews;
                    retrievalStrength =
                      calculateCurrentRetrievalStrength now wordMetrics reviews decayRate;
                    optimalInterval =
                      calculateOptimalInterval retrievalStrength stabilityFactor decayRate;
                    confidenceLevel = calculateModelConfidence now reviews
                in Inr \<lparr> fm_word_id = wm_word_id wordMetrics,
                         fm_initial_strength = initialStrength,
                         fm_decay_rate = decayRate,
                         fm_stability_factor = stabilityFactor,
                         fm_retrieval_strength = retrievalStrength,
                         fm_optimal_interval = optimalInterval,
                         fm_confidence_level = confidenceLevel \<rparr>))"

subsection \<open>Insights over all items\<close>

datatype stability_trend = improving | declining | stable

record WordForgettingProfile =
  wp_word_id :: string
  wp_word_text :: string
  wp_forgetting_rate :: real
  wp_memory_strength :: real
  wp_review_efficiency :: real
  wp_last_seen :: timestamp
  wp_total_reviews :: real

record ForgettingCurveInsights =
  ins_total_words :: nat
  ins_words_due :: nat
  ins_words_overdue :: nat
  ins_optimal_daily_reviews :: real
  ins_average_retention :: "real option"
  ins_memory_stability_trend :: stability_trend
  ins_most_forgettable_words :: "WordForgettingProfile list"
  ins_strongest_memories :: "WordForgettingProfile list"

text \<open>\<open>map\<close> with a callback that can raise: the first error ends the loop.\<close>

fun map_raising :: "('a \<Rightarrow> error + 'b) \<Rightarrow> 'a list \<Rightarrow> error + 'b list" where
  "map_raising f [] = Inr []"
| "map_raising f (x # xs) =
     (case f x of
        Inl e \<Rightarrow> Inl e
      | Inr y \<Rightarrow> (case map_raising f xs of Inl e \<Rightarrow> Inl e | Inr ys \<Rightarrow> Inr (y # ys)))"

text \<open>
  Both averages divide by \<open>models.length\<close> with no guard. A comparison with the value that
  is not a number is false, so both tests of the trend fail on it.
\<close>

definition calculateMemoryStabilityTrend :: "ForgettingCurveModel list \<Rightarrow> stability_trend" where
  "calculateMemoryStabilityTrend models =
     (let avgStability =
            js_div (foldl (\<lambda>sum model. sum + fm_stability_factor model) 0 models)
              (of_nat (length models));
          avgRetrieval =
            js_div (foldl (\<lambda>sum model. sum + fm_retrieval_strength model) 0 models)
              (of_nat (length models))
      in case (avgStability, avgRetrieval) of
           (Some s, Some r) \<Rightarrow>
             let overallStrength = (s + r) / 2
             in if overallStrength > 0.7 then improving
                else if overallStrength < 0.4 then declining
                else stable
         | _ \<Rightarrow> stable)"

text \<open>
  \<open>models.sort(...)\<close> sorts the array of the caller in place, so each of the two ranking
  functions also returns the array as it leaves it. The comparator subtracts the keys in
  descending order; the sort is stable. \<open>find(...)!\<close> followed by a field access raises a
  TypeError when nothing is found.
\<close>

definition profile_of ::
  "real \<Rightarrow> WordLearningMetrics list \<Rightarrow> ForgettingCurveModel \<Rightarrow> error + WordForgettingProfile"
  where
  "profile_of efficiency allWordMetrics model =
     (case find (\<lambda>m. wm_word_id m = fm_word_id model) allWordMetrics of
        None \<Rightarrow> Inl TypeError
      | Some metrics \<Rightarrow>
          Inr \<lparr> wp_word_id = fm_word_id model,
                wp_word_text = wm_word_id metrics,
                wp_forgetting_rate = fm_decay_rate model,
                wp_memory_strength = fm_retrieval_strength model,
                wp_review_efficiency = efficiency,
                wp_last_seen = wm_last_seen metrics,
                wp_total_reviews = wm_encounter_count metrics \<rparr>)"

definition getMostForgettableWords ::
  "WordLearningMetrics list \<Rightarrow> ForgettingCurveModel list
     \<Rightarrow> ForgettingCurveModel list \<times> (error + WordForgettingProfile list)" where
  "getMostForgettableWords allWordMetrics models =
     (let sorted_models = sort_key (\<lambda>m. - fm_decay_rate m) models
      in (sorted_models, map_raising (profile_of 0.5 allWordMetrics) (take 10 sorted_models)))"

definition getStrongestMemories ::
  "WordLearningMetrics list \<Rightarrow> ForgettingCurveModel list
     \<Rightarrow> ForgettingCurveModel list \<times> (error + WordForgettingProfile list)" where
  "getStrongestMemories allWordMetrics models =
     (let sorted_models =
            sort_key (\<lambda>m. - (fm_retrieval_strength m * fm_stability_factor m)) models
      in (sorted_models, map_raising (profile_of 0.8 allWordMetrics) (take 10 sorted_models)))"

definition getForgettingCurveInsights ::
  "timestamp \<Rightarrow> WordLearningMetrics list \<Rightarrow> LearningDataPoint list
     \<Rightarrow> error + ForgettingCurveInsights" where
  "getForgettingCurveInsights now allWordMetrics allReviewData =
     (case map_raising (\<lambda>metrics. calculateForgettingCurve now metrics allReviewData)
             allWordMetrics of
        Inl e \<Rightarrow> Inl e
      | Inr models \<Rightarrow>
          let wordsDue =
                length (filter (\<lambda>model.
                  let daysSinceReview = getDaysSince_word now (fm_word_id model) allReviewData
                  in daysSinceReview \<ge> fm_optimal_interval model) models);
              wordsOverdue =
                length (filter (\<lambda>model.
                  let daysSinceReview = getDaysSince_word now (fm_word_id model) allReviewData
                  in daysSinceReview > fm_optimal_interval model * 1.5) models);
              optimalDailyReviews = Math_round (of_nat (length models) / 30);
              averageRetention =
                js_div (foldl (\<lambda>sum model. sum + fm_retrieval_strength model) 0 models)
                  (of_nat (length models));
              memoryTrend = calculateMemoryStabilityTrend models;
              (models1, forgettableWords) = getMostForgettableWords allWordMetrics models;
              (models2, strongestMemories) = getStrongestMemories allWordMetrics models1
          in (case forgettableWords of
                Inl e \<Rightarrow> Inl e
              | Inr forgettable \<Rightarrow>
                  (case strongestMemories of
                     Inl e \<Rightarrow> Inl e
                   | Inr strongest \<Rightarrow>
                       Inr \<lparr> ins_total_words = length allWordMetrics,
                             ins_words_due = wordsDue,
                             ins_words_overdue = wordsOverdue,
                             ins_optimal_daily_reviews = optimalDailyReviews,
                             ins_average_retention =
                               map_option (\<lambda>a. Math_round (a * 10000) / 100) averageRetention,
                             ins_memory_stability_trend = memoryTrend,
                             ins_most_forgettable_words = forgettable,
                             ins_strongest_memories = strongest \<rparr>)))"

section \<open>Calendar of the host\<close>

text \<open>
  The \<open>Date\<close> getters the source calls, on a UTC clock and the proleptic Gregorian
  calendar. \<open>civil_from_days\<close> gives year, month (from 1) and day of the month of a day
  counted from 1970-01-01; \<open>days_from_civil\<close> is its inverse.
\<close>

definition civil_from_days :: "int \<Rightarrow> int \<times> int \<times> int" where
  "civil_from_days z0 =
     (let z = z0 + 719468;
          era = z div 146097;
          doe = z mod 146097;
          yoe = (doe - doe div 1460 + doe div 36524 - doe div 146096) div 365;
          doy = doe - (365 * yoe + yoe div 4 - yoe div 100);
          mp = (5 * doy + 2) div 153;
          d = doy - (153 * mp + 2) div 5 + 1;
          m = (if mp < 10 then mp + 3 else mp - 9);
          y = yoe + era * 400
      in (if m \<le> 2 then y + 1 else y, m, d))"

definition days_from_civil :: "int \<Rightarrow> int \<Rightarrow> int \<Rightarrow> int" where
  "days_from_civil y0 m d =
     (let y = (if m \<le> 2 then y0 - 1 else y0);
          era = y div 400;
          yoe = y mod 400;
          doy = (153 * (if m > 2 then m - 3 else m + 9) + 2) div 5 + d - 1;
          doe = yoe * 365 + yoe div 4 - yoe div 100 + doy
      in era * 146097 + doe - 719468)"

definition getFullYear :: "timestamp \<Rightarrow> int" where
  "getFullYear t = fst (civil_from_days (t div msPerDay))"

definition getMonth :: "timestamp \<Rightarrow> int" where
  "getMonth t = fst (snd (civil_from_days (t div msPerDay))) - 1"

definition getDate :: "timestamp \<Rightarrow> int" where
  "getDate t = snd (snd (civil_from_days (t div msPerDay)))"

definition getHours :: "timestamp \<Rightarrow> int" where
  "getHours t = (t mod msPerDay) div (1000 * 60 * 60)"

definition getDay :: "timestamp \<Rightarrow> int" where
  "getDay t = (t div msPerDay + 4) mod 7"

text \<open>\<open>new Date(year, 0, 1)\<close>; a year from 0 to 99 is read as 1900 + year.\<close>

definition firstOfJanuary :: "int \<Rightarrow> timestamp" where
  "firstOfJanuary year =
     days_from_civil (if 0 \<le> year \<and> year \<le> 99 then 1900 + year else year) 1 1 * msPerDay"

text \<open>\<open>String(n)\<close> of an integer and \<open>padStart(2, '0')\<close>.\<close>

fun digits_of :: "nat \<Rightarrow> string" where
  "digits_of n =
     (if n < 10 then [''0123456789'' ! n]
      else digits_of (n div 10) @ [''0123456789'' ! (n mod 10)])"

definition String_of :: "int \<Rightarrow> string" where
  "String_of i = (if i < 0 then CHR ''-'' # digits_of (nat (- i)) else digits_of (nat i))"

definition padStart2 :: "string \<Rightarrow> string" where
  "padStart2 s = replicate (2 - length s) CHR ''0'' @ s"

section \<open>Time-series analytics\<close>

datatype AggregationPeriod = hour | day | week | month

record TimeSeriesAggregate =
  agg_period :: string
  agg_metric_type :: MetricType
  agg_count :: nat
  agg_sum :: real
  agg_average :: real
  agg_min :: real
  agg_max :: real
  agg_std_deviation :: real

definition getWeekNumber :: "timestamp \<Rightarrow> int" where
  "getWeekNumber date =
     (let firstDayOfYear = firstOfJanuary (getFullYear date);
          pastDaysOfYear = real_of_int (date - firstDayOfYear) / 86400000
      in \<lceil>(pastDaysOfYear + of_int (getDay firstDayOfYear) + 1) / 7\<rceil>)"

definition getPeriodKey :: "timestamp \<Rightarrow> AggregationPeriod \<Rightarrow> string" where
  "getPeriodKey date period =
     (case period of
        hour \<Rightarrow>
          String_of (getFullYear date) @ ''-'' @ padStart2 (String_of (getMonth date + 1))
            @ ''-'' @ padStart2 (String_of (getDate date))
            @ ''T'' @ padStart2 (String_of (getHours date)) @ '':00:00Z''
      | day \<Rightarrow>
          String_of (getFullYear date) @ ''-'' @ padStart2 (String_of (getMonth date + 1))
            @ ''-'' @ padStart2 (String_of (getDate date))
      | week \<Rightarrow>
          (let startOfWeek = date - getDay date * msPerDay
           in String_of (getFullYear startOfWeek) @ ''-W''
                @ padStart2 (String_of (getWeekNumber startOfWeek)))
      | month \<Rightarrow>
          String_of (getFullYear date) @ ''-'' @ padStart2 (String_of (getMonth date + 1)))"

text \<open>
  \<open>if (!acc[key]) acc[key] = []; acc[key].push(v)\<close> on an object whose keys are kept in
  the order of their first insertion.
\<close>

fun push_value :: "'k \<Rightarrow> 'v \<Rightarrow> ('k \<times> 'v list) list \<Rightarrow> ('k \<times> 'v list) list" where
  "push_value k v [] = [(k, [v])]"
| "push_value k v ((k', vs) # rest) =
     (if k' = k then (k', vs @ [v]) # rest else (k', vs) # push_value k v rest)"

text \<open>
  \<open>Math.min(...values)\<close> and \<open>Math.max(...values)\<close> of the values of a bucket; a bucket
  is created by the push of its first value, so the list is never empty there.
\<close>

definition Math_min :: "real list \<Rightarrow> real" where
  "Math_min vs = Min (set vs)"

definition Math_max :: "real list \<Rightarrow> real" where
  "Math_max vs = Max (set vs)"

definition aggregate_of :: "MetricType \<Rightarrow> string \<times> real list \<Rightarrow> TimeSeriesAggregate" where
  "aggregate_of metricType entry =
     (case entry of (periodKey, vs) \<Rightarrow>
        let sum = foldl (\<lambda>total v. total + v) 0 vs;
            average = sum / of_nat (length vs);
            minimum = Math_min vs;
            maximum = Math_max vs;
            variance = foldl (\<lambda>acc v. acc + (v - average)\<^sup>2) 0 vs / of_nat (length vs);
            stdDeviation = sqrt variance
        in \<lparr> agg_period = periodKey,
             agg_metric_type = metricType,
             agg_count = length vs,
             agg_sum = sum,
             agg_average = Math_round (average * 10000) / 10000,
             agg_min = minimum,
             agg_max = maximum,
             agg_std_deviation = Math_round (stdDeviation * 10000) / 10000 \<rparr>)"

text \<open>
  The final \<open>sort\<close> compares period keys with \<open>localeCompare\<close>, taken here to be the
  order of the character codes; the sort is stable.
\<close>

definition aggregateDataByPeriod ::
  "LearningDataPoint list \<Rightarrow> MetricType \<Rightarrow> AggregationPeriod \<Rightarrow> TimeSeriesAggregate list"
  where
  "aggregateDataByPeriod dataPoints metricType period =
     (if length dataPoints = 0 then []
      else
        let filteredPoints = filter (\<lambda>point. dp_metric_type point = metricType) dataPoints
        in if length filteredPoints = 0 then []
           else
             let grouped =
                   foldl (\<lambda>acc point.
                            push_value (getPeriodKey (dp_timestamp point) period)
                              (dp_value point) acc)
                     [] filteredPoints
             in sort_key agg_period (map (aggregate_of metricType) grouped))"

section \<open>Temporal pattern engine\<close>

datatype ActivityType = flashcard | quiz | learning | review | challenge | free_practice

record StudySession =
  ss_date :: timestamp
  ss_duration_minutes :: real
  ss_words_practiced :: real
  ss_quiz_score :: "real option"
  ss_activity_type :: ActivityType
  ss_xp_earned :: real
  ss_words_learned :: real

datatype TemporalPatternType =
    daily_rhythm | weekly_cycle | binge_learning | micro_sessions
  | consistency_pattern | seasonal_drift | performance_wave | plateau_breakthrough

text \<open>
  A pattern without its \<open>pattern_id\<close>, its description string and its free-form metadata:
  they are built from the other fields and nothing below reads them.
\<close>

record TemporalPattern =
  tp_pattern_type :: TemporalPatternType
  tp_confidence :: real
  tp_start_time :: timestamp
  tp_end_time :: timestamp
  tp_frequency :: real
  tp_significance_score :: real

definition minDataPoints :: nat where "minDataPoints = 50"
definition confidenceThreshold :: real where "confidenceThreshold = 0.7"

text \<open>
  The three groupings. The keys of \<open>groupByHour\<close> and \<open>groupByDayOfWeek\<close> are integers,
  which an object lists in ascending order; the key of \<open>groupByDay\<close> is the date part of
  the ISO timestamp, represented by the number of its UTC day, and those keys are listed
  in the order of their first insertion.
\<close>

definition groupByHour :: "LearningDataPoint list \<Rightarrow> (int \<times> LearningDataPoint list) list" where
  "groupByHour data =
     sort_key fst
       (foldl (\<lambda>acc point. push_value (getHours (dp_timestamp point)) point acc) [] data)"

definition groupByDayOfWeek :: "LearningDataPoint list \<Rightarrow> (int \<times> LearningDataPoint list) list"
  where
  "groupByDayOfWeek data =
     sort_key fst
       (foldl (\<lambda>acc point. push_value (getDay (dp_timestamp point)) point acc) [] data)"

definition groupByDay :: "LearningDataPoint list \<Rightarrow> (int \<times> LearningDataPoint list) list" where
  "groupByDay data =
     foldl (\<lambda>acc point. push_value (dp_timestamp point div msPerDay) point acc) [] data"

definition calculateAveragePerformance :: "LearningDataPoint list \<Rightarrow> real" where
  "calculateAveragePerformance data =
     (if length data = 0 then 0
      else
        let sum = foldl (\<lambda>total point.
                     if dp_metric_type point = accuracy_rate then total + dp_value point
                     else if dp_metric_type point = response_time
                       then total + 1 / max (dp_value point) 1
                     else total + dp_value point) 0 data
        in sum / of_nat (length data))"

definition calculateVariance :: "real list \<Rightarrow> real" where
  "calculateVariance vs =
     (if length vs = 0 then 0
      else
        let mean = foldl (\<lambda>sum v. sum + v) 0 vs / of_nat (length vs);
            variance = foldl (\<lambda>sum v. sum + (v - mean)\<^sup>2) 0 vs / of_nat (length vs)
        in variance)"

definition calculateRhythmConfidence :: "(int \<times> LearningDataPoint list) list \<Rightarrow> real" where
  "calculateRhythmConfidence hourlyData =
     (let performances = map (\<lambda>(h, data). calculateAveragePerformance data) hourlyData;
          variance = calculateVariance performances
      in min 0.9 (variance * 2))"

text \<open>
  Timestamps are compared as strings in the source; on ISO timestamps of one format that
  is the order of the instants. The start value is the first timestamp, or the clock for
  an empty list.
\<close>

definition getEarliestTimestamp :: "timestamp \<Rightarrow> LearningDataPoint list \<Rightarrow> timestamp" where
  "getEarliestTimestamp now data =
     foldl (\<lambda>earliest point.
              if dp_timestamp point < earliest then dp_timestamp point else earliest)
       (case data of [] \<Rightarrow> now | p # _ \<Rightarrow> dp_timestamp p) data"

definition getLatestTimestamp :: "timestamp \<Rightarrow> LearningDataPoint list \<Rightarrow> timestamp" where
  "getLatestTimestamp now data =
     foldl (\<lambda>latest point.
              if dp_timestamp point > latest then dp_timestamp point else latest)
       (case data of [] \<Rightarrow> now | p # _ \<Rightarrow> dp_timestamp p) data"

definition getDaySpan :: "StudySession list \<Rightarrow> real" where
  "getDaySpan sessions =
     (if length sessions = 0 then 1
      else
        let earliest = ss_date (sessions ! 0);
            latest = ss_date (sessions ! (length sessions - 1))
        in max 1 (Math_ceil (of_int (latest - earliest) / of_int msPerDay)))"

definition getDaySpanFromData :: "timestamp \<Rightarrow> LearningDataPoint list \<Rightarrow> real" where
  "getDaySpanFromData now data =
     (if length data = 0 then 1
      else
        let earliest = getEarliestTimestamp now data;
            latest = getLatestTimestamp now data
        in max 1 (Math_ceil (of_int (latest - earliest) / of_int msPerDay)))"

definition calculateDailyFrequency :: "timestamp \<Rightarrow> LearningDataPoint list \<Rightarrow> real" where
  "calculateDailyFrequency now data =
     (let daySpan = getDaySpanFromData now data in of_nat (length data) / daySpan)"

definition calculateWeeklyFrequency :: "timestamp \<Rightarrow> LearningDataPoint list \<Rightarrow> real" where
  "calculateWeeklyFrequency now data =
     (let weekSpan = getDaySpanFromData now data / 7 in of_nat (length data) / weekSpan)"

text \<open>Entries of the hour table: hour, average performance, number of points.\<close>

definition analyzeDailyRhythms :: "timestamp \<Rightarrow> LearningDataPoint list \<Rightarrow> TemporalPattern list"
  where
  "analyzeDailyRhythms now learningData =
     (let hourlyPerformance = groupByHour learningData
      in if length hourlyPerformance < 8 then []
         else
           let sortedHours =
                 sort_key (\<lambda>(h, avgPerformance, dataPoints). - avgPerformance)
                   (filter (\<lambda>(h, avgPerformance, dataPoints). dataPoints \<ge> 5)
                      (map (\<lambda>(h, data). (h, calculateAveragePerformance data, length data))
                         hourlyPerformance))
           in if length sortedHours \<ge> 3 then
                (let confidenceScore = calculateRhythmConfidence hourlyPerformance
                 in if confidenceScore \<ge> 0.6 then
                      [\<lparr> tp_pattern_type = daily_rhythm,
                         tp_confidence = confidenceScore,
                         tp_start_time = getEarliestTimestamp now learningData,
                         tp_end_time = getLatestTimestamp now learningData,
                         tp_frequency = calculateDailyFrequency now learningData,
                         tp_significance_score = confidenceScore \<rparr>]
                    else [])
              else [])"

definition analyzeWeeklyCycles :: "timestamp \<Rightarrow> LearningDataPoint list \<Rightarrow> TemporalPattern list"
  where
  "analyzeWeeklyCycles now learningData =
     (let weeklyData = groupByDayOfWeek learningData
      in if length weeklyData \<ge> 5 then
           (let dayPerformance =
                  map (\<lambda>(d, data). (d, calculateAveragePerformance data, length data)) weeklyData;
                variance =
                  calculateVariance (map (\<lambda>(d, avgPerformance, sessionCount). avgPerformance)
                    dayPerformance)
            in if variance > 0.1 then
                 [\<lparr> tp_pattern_type = weekly_cycle,
                    tp_confidence = min 0.9 (variance * 2),
                    tp_start_time = getEarliestTimestamp now learningData,
                    tp_end_time = getLatestTimestamp now learningData,
                    tp_frequency = calculateWeeklyFrequency now learningData,
                    tp_significance_score = variance \<rparr>]
               else [])
         else [])"

definition analyzeSessionPatterns :: "StudySession list \<Rightarrow> TemporalPattern list" where
  "analyzeSessionPatterns studySessions =
     (if length studySessions < 20 then []
      else
        let microSessions = filter (\<lambda>s. ss_duration_minutes s \<le> 5) studySessions;
            bingeSessions = filter (\<lambda>s. ss_duration_minutes s \<ge> 30) studySessions
        in (if real (length microSessions) / real (length studySessions) > 0.4 then
              [\<lparr> tp_pattern_type = micro_sessions,
                 tp_confidence = 0.8,
                 tp_start_time = ss_date (studySessions ! 0),
                 tp_end_time = ss_date (studySessions ! (length studySessions - 1)),
                 tp_frequency = real (length microSessions) / getDaySpan studySessions,
                 tp_significance_score =
                   real (length microSessions) / real (length studySessions) \<rparr>]
            else [])
         @ (if real (length bingeSessions) / real (length studySessions) > 0.15 then
              [\<lparr> tp_pattern_type = binge_learning,
                 tp_confidence = 0.8,
                 tp_start_time = ss_date (studySessions ! 0),
                 tp_end_time = ss_date (studySessions ! (length studySessions - 1)),
                 tp_frequency = real (length bingeSessions) / getDaySpan studySessions,
                 tp_significance_score =
                   real (length bingeSessions) / real (length studySessions) \<rparr>]
            else []))"

definition applyMovingAverage :: "real list \<Rightarrow> nat \<Rightarrow> real list" where
  "applyMovingAverage vs windowSize =
     map (\<lambda>i.
            let start = (if i < windowSize div 2 then 0 else i - windowSize div 2);
                end = min (length vs) (i + windowSize div 2 + 1);
                window = take (end - start) (drop start vs)
            in foldl (\<lambda>sum v. sum + v) 0 window / of_nat (length window))
       [0 ..< length vs]"

definition calculateAutoCorrelation :: "real list \<Rightarrow> nat \<Rightarrow> real" where
  "calculateAutoCorrelation data lag =
     (if lag \<ge> length data then 0
      else
        let n = length data - lag;
            mean = foldl (\<lambda>sum v. sum + v) 0 data / of_nat (length data);
            numerator =
              foldl (\<lambda>acc i. acc + (data ! i - mean) * (data ! (i + lag) - mean)) 0 [0 ..< n];
            denominator =
              foldl (\<lambda>acc i. acc + (data ! i - mean)\<^sup>2) 0 [0 ..< length data]
        in if denominator \<noteq> 0 then numerator / denominator else 0)"

text \<open>A detected cycle: period in days, amplitude, confidence, predicted next peak.\<close>

record PerformanceCycle =
  pc_period :: nat
  pc_amplitude :: real
  pc_confidence :: real
  pc_nextPeak :: timestamp

definition predictNextPeak :: "timestamp \<Rightarrow> nat \<Rightarrow> timestamp" where
  "predictNextPeak now period = now + int period * 24 * 60 * 60 * 1000"

text \<open>The loop \<open>for (period = 5; period <= 30; period += 2)\<close> visits 5, 7, ..., 29.\<close>

definition detectPerformanceCycles :: "timestamp \<Rightarrow> real list \<Rightarrow> PerformanceCycle list" where
  "detectPerformanceCycles now smoothedData =
     (let cycles =
            concat (map (\<lambda>period.
                      let correlation = calculateAutoCorrelation smoothedData period
                      in if correlation > 0.5 then
                           [\<lparr> pc_period = period,
                              pc_amplitude = calculateVariance smoothedData,
                              pc_confidence = correlation,
                              pc_nextPeak = predictNextPeak now period \<rparr>]
                         else [])
                    (map (\<lambda>k. 5 + 2 * k) [0 ..< 13]))
      in take 3 (sort_key (\<lambda>c. - pc_confidence c) cycles))"

definition analyzePerformanceWaves ::
  "timestamp \<Rightarrow> LearningDataPoint list \<Rightarrow> TemporalPattern list" where
  "analyzePerformanceWaves now learningData =
     (let accuracyData =
            sort_key dp_timestamp (filter (\<lambda>d. dp_metric_type d = accuracy_rate) learningData)
      in if length accuracyData < 30 then []
         else
           let smoothedData = applyMovingAverage (map dp_value accuracyData) 7;
               cycles = detectPerformanceCycles now smoothedData
           in concat (map (\<lambda>cycle.
                        if pc_confidence cycle > 0.6 then
                          [\<lparr> tp_pattern_type = performance_wave,
                             tp_confidence = pc_confidence cycle,
                             tp_start_time = dp_timestamp (accuracyData ! 0),
                             tp_end_time = dp_timestamp (accuracyData ! (length accuracyData - 1)),
                             tp_frequency = 1 / real (pc_period cycle),
                             tp_significance_score = pc_amplitude cycle \<rparr>]
                        else []) cycles))"

definition analyzeConsistencyPatterns ::
  "timestamp \<Rightarrow> LearningDataPoint list \<Rightarrow> TemporalPattern list" where
  "analyzeConsistencyPatterns now learningData =
     (let dailyData = groupByDay learningData;
          dailyEngagement =
            map (\<lambda>(date, data). (date, real (length data), calculateAveragePerformance data))
              dailyData;
          engagementVariance =
            calculateVariance (map (\<lambda>(date, dataPoints, avgPerformance). dataPoints)
              dailyEngagement)
      in if engagementVariance < 5 \<and> length dailyEngagement \<ge> 14 then
           [\<lparr> tp_pattern_type = consistency_pattern,
              tp_confidence = 0.9,
              tp_start_time = getEarliestTimestamp now learningData,
              tp_end_time = getLatestTimestamp now learningData,
              tp_frequency =
                real (length dailyEngagement) / getDaySpanFromData now learningData,
              tp_significance_score = 1 - engagementVariance / 20 \<rparr>]
         else [])"

definition analyzeTemporalPatterns ::
  "timestamp \<Rightarrow> LearningDataPoint list \<Rightarrow> StudySession list \<Rightarrow> TemporalPattern list" where
  "analyzeTemporalPatterns now learningData studySessions =
     (if length learningData < minDataPoints then []
      else
        let patterns =
              analyzeDailyRhythms now learningData
              @ analyzeWeeklyCycles now learningData
              @ analyzeSessionPatterns studySessions
              @ analyzePerformanceWaves now learningData
              @ analyzeConsistencyPatterns now learningData
        in filter (\<lambda>pattern. tp_confidence pattern \<ge> confidenceThreshold) patterns)"

section \<open>Sample inputs and auxiliary definitions\<close>

definition example_metrics :: "SpacedRepetitionState option \<Rightarrow> WordLearningMetrics" where
  "example_metrics stored =
     \<lparr> wm_word_id = ''w1'', wm_encounter_count = 4, wm_correct_count = 3,
       wm_incorrect_count = 1, wm_avg_response_time = 1200, wm_first_seen = 0,
       wm_last_seen = 0, wm_confidence_score = 0.75, wm_retention_estimate = 0.5,
       wm_next_review_date = 0, wm_spaced_repetition_data = stored \<rparr>"

definition example_state :: "real \<Rightarrow> real \<Rightarrow> real \<Rightarrow> SpacedRepetitionState" where
  "example_state easeFactor interval repetitionNumber =
     \<lparr> sr_next_review_date = 0, sr_ease_factor = easeFactor,
       sr_next_interval = interval, sr_repetition_number = repetitionNumber \<rparr>"

definition example_event :: "timestamp \<Rightarrow> MetricType \<Rightarrow> real \<Rightarrow> string \<Rightarrow> LearningDataPoint"
  where
  "example_event t kind v wordId =
     \<lparr> dp_timestamp = t, dp_metric_type = kind, dp_value = v,
       dp_metadata = Some [(''word_id'', JString wordId)] \<rparr>"

text \<open>The model of an item without history, as \<open>calculateForgettingCurve\<close> writes it.\<close>

definition default_model :: "string \<Rightarrow> ForgettingCurveModel" where
  "default_model wordId =
     \<lparr> fm_word_id = wordId, fm_initial_strength = 0.3, fm_decay_rate = 0.1,
       fm_stability_factor = 0.5, fm_retrieval_strength = 0.3, fm_optimal_interval = 1,
       fm_confidence_level = 0.2 \<rparr>"

text \<open>The array \<open>models\<close> of \<open>getForgettingCurveInsights\<close>, given that no model raises.\<close>

definition models_of ::
  "timestamp \<Rightarrow> WordLearningMetrics list \<Rightarrow> LearningDataPoint list
     \<Rightarrow> ForgettingCurveModel list" where
  "models_of now allWordMetrics allReviewData =
     map (\<lambda>metrics. projr (calculateForgettingCurve now metrics allReviewData)) allWordMetrics"

text \<open>A model whose stability bonus is below the rounding step of the prediction.\<close>

definition tiny_model :: ForgettingCurveModel where
  "tiny_model =
     \<lparr> fm_word_id = ''w1'', fm_initial_strength = 0.3, fm_decay_rate = 0.1,
       fm_stability_factor = 0.0001, fm_retrieval_strength = 0, fm_optimal_interval = 1,
       fm_confidence_level = 0.2 \<rparr>"

text \<open>
  What a bucket is said to carry, in the words of the specification: the values of the
  requested metric kind whose period key is the key of the bucket, their mean and their
  population standard deviation.
\<close>

definition bucket_values ::
  "LearningDataPoint list \<Rightarrow> MetricType \<Rightarrow> AggregationPeriod \<Rightarrow> string \<Rightarrow> real list" where
  "bucket_values dataPoints metricType period periodKey =
     map dp_value
       (filter (\<lambda>point. dp_metric_type point = metricType
                  \<and> getPeriodKey (dp_timestamp point) period = periodKey) dataPoints)"

definition mean :: "real list \<Rightarrow> real" where
  "mean vs = sum_list vs / real (length vs)"

definition population_stddev :: "real list \<Rightarrow> real" where
  "population_stddev vs = sqrt (sum_list (map (\<lambda>v. (v - mean vs)\<^sup>2) vs) / real (length vs))"

text \<open>Four events of one UTC day, three of them accuracy rates with the values 2, 4, 6.\<close>

definition example_log :: "LearningDataPoint list" where
  "example_log =
     [example_event 0 accuracy_rate 2 ''w1'',
      example_event 3600000 response_time 900 ''w1'',
      example_event 7200000 accuracy_rate 4 ''w1'',
      example_event 10800000 accuracy_rate 6 ''w2'']"

text \<open>
  A study session of the given length, and the pattern reported for twenty sessions of
  three minutes.
\<close>

definition example_session :: "real \<Rightarrow> StudySession" where
  "example_session minutes =
     \<lparr> ss_date = 0, ss_duration_minutes = minutes, ss_words_practiced = 10,
       ss_quiz_score = None, ss_activity_type = flashcard, ss_xp_earned = 5,
       ss_words_learned = 2 \<rparr>"

definition micro_pattern :: TemporalPattern where
  "micro_pattern =
     \<lparr> tp_pattern_type = micro_sessions, tp_confidence = 0.8, tp_start_time = 0,
       tp_end_time = 0, tp_frequency = 20, tp_significance_score = 1 \<rparr>"

section \<open>Rounding\<close>

lemma Math_round_mono: "x \<le> y \<Longrightarrow> Math_round x \<le> Math_round y"
  unfolding Math_round_def by (simp add: floor_mono)

lemma Math_round_of_int [simp]: "Math_round (of_int n) = of_int n"
proof -
  have "\<lfloor>real_of_int n + 1 / 2\<rfloor> = n" by linarith
  then show ?thesis unfolding Math_round_def by simp
qed

lemma Math_round_numeral [simp]: "Math_round (numeral n) = numeral n"
  using Math_round_of_int [of "numeral n"] by simp

lemma Math_round_zero [simp]: "Math_round 0 = 0"
  using Math_round_of_int [of 0] by simp

lemma Math_round_close: "\<bar>Math_round x - x\<bar> \<le> 1 / 2"
  unfolding Math_round_def by linarith

lemma round4_close: "\<bar>Math_round (x * 10000) / 10000 - x\<bar> \<le> 1 / 20000"
  using Math_round_close [of "x * 10000"] by (simp add: field_simps abs_le_iff)

section \<open>The models never raise\<close>

lemma calculateForgettingCurve_no_history:
  assumes "\<forall>dp\<in>set reviewHistory. \<not> metadata_word_id_is dp (wm_word_id wordMetrics)"
  shows "calculateForgettingCurve now wordMetrics reviewHistory
           = Inr (default_model (wm_word_id wordMetrics))"
proof -
  have "filter (\<lambda>dp. metadata_word_id_is dp (wm_word_id wordMetrics)) reviewHistory = []"
    using assms by (simp add: filter_empty_conv)
  then show ?thesis
    by (simp add: calculateForgettingCurve_def default_model_def defaultDecayRate_def)
qed

lemma calculateForgettingCurve_returns:
  "\<exists>model. calculateForgettingCurve now wordMetrics reviewHistory = Inr model
           \<and> fm_word_id model = wm_word_id wordMetrics"
proof -
  define reviews where "reviews = sort_key dp_timestamp
     (filter (\<lambda>dp. metadata_word_id_is dp (wm_word_id wordMetrics)) reviewHistory)"
  show ?thesis
  proof (cases reviews)
    case Nil
    then show ?thesis
      unfolding calculateForgettingCurve_def reviews_def [symmetric] by simp
  next
    case (Cons r rs)
    then have "calculateInitialStrength reviews
                 = Inr (if dp_metric_type r = accuracy_rate
                        then max 0.1 (min 0.9 (dp_value r)) else 0.3)"
      by (simp add: calculateInitialStrength_def)
    then obtain s where "calculateInitialStrength reviews = Inr s" ..
    then show ?thesis
      unfolding calculateForgettingCurve_def reviews_def [symmetric]
      using Cons by (simp add: Let_def)
  qed
qed

lemma map_raising_Inr:
  assumes "\<forall>x\<in>set xs. \<exists>y. f x = Inr y"
  shows "map_raising f xs = Inr (map (\<lambda>x. projr (f x)) xs)"
  using assms by (induction xs) auto

lemma length_filter_mono:
  assumes "\<forall>x\<in>set xs. P x \<longrightarrow> Q x"
  shows "length (filter P xs) \<le> length (filter Q xs)"
  using assms by (induction xs) auto

lemma getDaysSince_word_no_history:
  assumes "\<forall>dp\<in>set reviewData. \<not> metadata_word_id_is dp wordId"
  shows "getDaysSince_word now wordId reviewData = 999"
proof -
  have "filter (\<lambda>dp. metadata_word_id_is dp wordId) reviewData = []"
    using assms by (simp add: filter_empty_conv)
  then show ?thesis by (simp add: getDaysSince_word_def)
qed

lemma profile_of_returns:
  assumes "fm_word_id model \<in> wm_word_id ` set allWordMetrics"
  shows "\<exists>p. profile_of efficiency allWordMetrics model = Inr p"
proof -
  have "find (\<lambda>m. wm_word_id m = fm_word_id model) allWordMetrics \<noteq> None"
    using assms by (auto simp: find_None_iff)
  then show ?thesis by (auto simp: profile_of_def)
qed


lemma models_of_ids:
  "model \<in> set (models_of now allWordMetrics allReviewData)
     \<Longrightarrow> fm_word_id model \<in> wm_word_id ` set allWordMetrics"
proof -
  assume "model \<in> set (models_of now allWordMetrics allReviewData)"
  then obtain m where m: "m \<in> set allWordMetrics"
    and eq: "model = projr (calculateForgettingCurve now m allReviewData)"
    by (auto simp: models_of_def)
  from calculateForgettingCurve_returns [of now m allReviewData]
  have "fm_word_id model = wm_word_id m" using eq by auto
  then show ?thesis using m by auto
qed

lemma ranking_returns:
  assumes "set ms \<subseteq> set (models_of now allWordMetrics allReviewData)"
  shows "map_raising (profile_of efficiency allWordMetrics) (take n ms)
           = Inr (map (\<lambda>model. projr (profile_of efficiency allWordMetrics model)) (take n ms))"
proof (rule map_raising_Inr, rule ballI)
  fix model assume "model \<in> set (take n ms)"
  then have "model \<in> set ms" by (rule in_set_takeD)
  then have "fm_word_id model \<in> wm_word_id ` set allWordMetrics"
    using assms models_of_ids by blast
  then show "\<exists>p. profile_of efficiency allWordMetrics model = Inr p"
    by (rule profile_of_returns)
qed

lemma getForgettingCurveInsights_returns:
  "\<exists>ins. getForgettingCurveInsights now allWordMetrics allReviewData = Inr ins
     \<and> ins_total_words ins = length allWordMetrics
     \<and> ins_words_due ins
         = length (filter (\<lambda>model. getDaysSince_word now (fm_word_id model) allReviewData
                                      \<ge> fm_optimal_interval model)
                     (models_of now allWordMetrics allReviewData))
     \<and> ins_words_overdue ins
         = length (filter (\<lambda>model. getDaysSince_word now (fm_word_id model) allReviewData
                                      > fm_optimal_interval model * 1.5)
                     (models_of now allWordMetrics allReviewData))
     \<and> ins_average_retention ins
         = map_option (\<lambda>a. Math_round (a * 10000) / 100)
             (js_div (foldl (\<lambda>sum model. sum + fm_retrieval_strength model) 0
                        (models_of now allWordMetrics allReviewData))
                (of_nat (length allWordMetrics)))"
proof -
  let ?models = "models_of now allWordMetrics allReviewData"
  have m: "map_raising (\<lambda>metrics. calculateForgettingCurve now metrics allReviewData)
             allWordMetrics = Inr ?models"
    unfolding models_of_def
    by (rule map_raising_Inr) (use calculateForgettingCurve_returns in blast)
  let ?s1 = "sort_key (\<lambda>m. - fm_decay_rate m) ?models"
  let ?s2 = "sort_key (\<lambda>m. - (fm_retrieval_strength m * fm_stability_factor m)) ?s1"
  have f: "map_raising (profile_of e allWordMetrics) (take 10 ?s1)
             = Inr (map (\<lambda>model. projr (profile_of e allWordMetrics model)) (take 10 ?s1))" for e
    by (rule ranking_returns [of _ now _ allReviewData]) simp
  have g: "map_raising (profile_of e allWordMetrics) (take 10 ?s2)
             = Inr (map (\<lambda>model. projr (profile_of e allWordMetrics model)) (take 10 ?s2))" for e
    by (rule ranking_returns [of _ now _ allReviewData]) simp
  have l: "length ?models = length allWordMetrics" by (simp add: models_of_def)
  show ?thesis
    unfolding getForgettingCurveInsights_def m
    by (simp add: Let_def getMostForgettableWords_def getStrongestMemories_def f g l)
qed

section \<open>Properties of the schedule\<close>

text \<open>
  C1, as the code has it: for every stored spaced-repetition state and every last review
  date, a review of quality below 3 yields a schedule with \<open>interval_days = 1\<close> and
  \<open>repetition_number = 1\<close>, whatever the stored ease factor, interval and repetition
  number were: the counter is reset to 0 and the schedule then reports the counter plus one.
\<close>

theorem failure_resets_schedule:
  assumes "wm_spaced_repetition_data wordMetrics = Some spacedRepData"
    and "lastQuality < 3"
  shows "sch_repetition_number
           (generateSpacedRepetitionSchedule wordMetrics lastReviewDate lastQuality) = 1
       \<and> sch_interval_days
           (generateSpacedRepetitionSchedule wordMetrics lastReviewDate lastQuality) = 1"
  using assms
  by (simp add: generateSpacedRepetitionSchedule_def minInterval_def maxInterval_def)

text \<open>The theorem at a stored state of ease 2.5, interval 6, repetition 2, and quality 2.\<close>

theorem failure_resets_schedule_witness:
  "wm_spaced_repetition_data (example_metrics (Some (example_state 2.5 6 2)))
     = Some (example_state 2.5 6 2)
   \<and> (2::real) < 3
   \<and> sch_repetition_number
        (generateSpacedRepetitionSchedule
           (example_metrics (Some (example_state 2.5 6 2))) 0 2) = 1
   \<and> sch_interval_days
        (generateSpacedRepetitionSchedule
           (example_metrics (Some (example_state 2.5 6 2))) 0 2) = 1"
proof -
  have h: "wm_spaced_repetition_data (example_metrics (Some (example_state 2.5 6 2)))
             = Some (example_state 2.5 6 2)"
    by (simp add: example_metrics_def)
  have q: "(2::real) < 3" by simp
  show ?thesis using h q failure_resets_schedule [OF h q, of 0] by simp
qed

text \<open>
  C1 as stated fails: at that same input the returned \<open>repetition_number\<close> is not 0.
\<close>

theorem failure_repetition_number_not_zero:
  "wm_spaced_repetition_data (example_metrics (Some (example_state 2.5 6 2)))
     = Some (example_state 2.5 6 2)
   \<and> (2::real) < 3
   \<and> sch_repetition_number
        (generateSpacedRepetitionSchedule
           (example_metrics (Some (example_state 2.5 6 2))) 0 2) \<noteq> 0"
  by (simp add: generateSpacedRepetitionSchedule_def example_metrics_def example_state_def
      Let_def)

text \<open>
  C2: with a stored state and a quality of at least 3, a produced \<open>repetition_number\<close> of
  2 comes with \<open>interval_days = 6\<close>, whatever the stored ease factor. And the scenario:
  an item without stored state reviewed with quality 5 gets interval 1, ease factor 2.5,
  repetition 1; once the caller has stored that schedule, a review one day later with
  quality 5 gets interval 6, ease factor 2.6, repetition 2.
\<close>

theorem second_success_interval_six:
  "(wm_spaced_repetition_data wordMetrics = Some spacedRepData \<and> lastQuality \<ge> 3
      \<and> sch_repetition_number
           (generateSpacedRepetitionSchedule wordMetrics lastReviewDate lastQuality) = 2
     \<longrightarrow> sch_interval_days
           (generateSpacedRepetitionSchedule wordMetrics lastReviewDate lastQuality) = 6)
   \<and> (wm_spaced_repetition_data newMetrics = None
     \<longrightarrow> (let first = generateSpacedRepetitionSchedule newMetrics firstReviewDate 5;
              second = generateSpacedRepetitionSchedule
                         (updateWordSchedule now newMetrics first)
                         (firstReviewDate + msPerDay) 5
          in sch_interval_days first = 1 \<and> sch_ease_factor first = 2.5
             \<and> sch_repetition_number first = 1
             \<and> sch_interval_days second = 6 \<and> sch_ease_factor second = 2.6
             \<and> sch_repetition_number second = 2))"
proof -
  have r: "Math_round (26 * 100 / 10) = 260"
    using Math_round_of_int [of 260] by simp
  show ?thesis
    by (auto simp add: generateSpacedRepetitionSchedule_def updateWordSchedule_def
        minInterval_def maxInterval_def Let_def r split: if_splits)
qed

text \<open>
  The theorem at a stored state of ease 1.7, interval 1, repetition 1 with quality 4, and
  at the sample item without stored state.
\<close>

theorem second_success_interval_six_witness:
  "wm_spaced_repetition_data (example_metrics (Some (example_state 1.7 1 1)))
     = Some (example_state 1.7 1 1)
   \<and> (4::real) \<ge> 3
   \<and> sch_repetition_number
        (generateSpacedRepetitionSchedule
           (example_metrics (Some (example_state 1.7 1 1))) 0 4) = 2
   \<and> sch_interval_days
        (generateSpacedRepetitionSchedule
           (example_metrics (Some (example_state 1.7 1 1))) 0 4) = 6
   \<and> wm_spaced_repetition_data (example_metrics None) = None
   \<and> sch_interval_days
        (generateSpacedRepetitionSchedule
           (updateWordSchedule 0 (example_metrics None)
              (generateSpacedRepetitionSchedule (example_metrics None) 0 5))
           (0 + msPerDay) 5) = 6
   \<and> sch_ease_factor
        (generateSpacedRepetitionSchedule
           (updateWordSchedule 0 (example_metrics None)
              (generateSpacedRepetitionSchedule (example_metrics None) 0 5))
           (0 + msPerDay) 5) = 2.6"
proof -
  have h: "wm_spaced_repetition_data (example_metrics (Some (example_state 1.7 1 1)))
             = Some (example_state 1.7 1 1)"
    by (simp add: example_metrics_def)
  have n: "wm_spaced_repetition_data (example_metrics None) = None"
    by (simp add: example_metrics_def)
  have r: "sch_repetition_number
             (generateSpacedRepetitionSchedule
                (example_metrics (Some (example_state 1.7 1 1))) 0 4) = 2"
    by (simp add: generateSpacedRepetitionSchedule_def example_metrics_def example_state_def
        Let_def)
  show ?thesis
    using h n r
      second_success_interval_six [of "example_metrics (Some (example_state 1.7 1 1))"
        "example_state 1.7 1 1" 4 0 "example_metrics None" 0 0]
    by (simp add: Let_def)
qed

text \<open>
  C3: every schedule has \<open>1 \<le> interval_days \<le> 365\<close> and \<open>ease_factor \<ge> 1.3\<close>, with or
  without stored state, for every quality and date.
\<close>

theorem schedule_bounds:
  "1 \<le> sch_interval_days
          (generateSpacedRepetitionSchedule wordMetrics lastReviewDate lastQuality)
   \<and> sch_interval_days
          (generateSpacedRepetitionSchedule wordMetrics lastReviewDate lastQuality) \<le> 365
   \<and> sch_ease_factor
          (generateSpacedRepetitionSchedule wordMetrics lastReviewDate lastQuality) \<ge> 1.3"
proof (cases "wm_spaced_repetition_data wordMetrics")
  case None
  then show ?thesis by (simp add: generateSpacedRepetitionSchedule_def)
next
  case (Some s)
  have r: "Math_round (max 1.3 e * 100) / 100 \<ge> 1.3" for e :: real
  proof -
    have "Math_round 130 \<le> Math_round (max 1.3 e * 100)"
      by (rule Math_round_mono) simp
    then show ?thesis by simp
  qed
  show ?thesis using Some r
    by (simp add: generateSpacedRepetitionSchedule_def minInterval_def maxInterval_def
        Let_def split: prod.splits)
qed

text \<open>The theorem at a stored state of ease 2.5, interval 200, repetition 5, quality 5.\<close>

theorem schedule_bounds_witness:
  "1 \<le> sch_interval_days
          (generateSpacedRepetitionSchedule
             (example_metrics (Some (example_state 2.5 200 5))) 0 5)
   \<and> sch_interval_days
          (generateSpacedRepetitionSchedule
             (example_metrics (Some (example_state 2.5 200 5))) 0 5) \<le> 365
   \<and> sch_ease_factor
          (generateSpacedRepetitionSchedule
             (example_metrics (Some (example_state 2.5 200 5))) 0 5) \<ge> 1.3"
  using schedule_bounds [of "example_metrics (Some (example_state 2.5 200 5))" 0 5] by simp

section \<open>Properties of the prediction\<close>

text \<open>
  C5, as the code has it: for a model with non-negative retrieval strength, stability
  factor and decay rate and a non-negative number of days, the time decay is at most 1,
  and the returned \<open>success_probability\<close> lies in [0, 0.95] and is
  \<open>min(0.95, retrieval_strength * e^(- decay_rate * days) + stability_factor * 0.2)\<close>
  rounded to four decimal places, hence within 0.00005 of that value.
\<close>

theorem success_probability_rounded:
  assumes "0 \<le> fm_retrieval_strength model" and "0 \<le> fm_stability_factor model"
    and "0 \<le> fm_decay_rate model" and "0 \<le> daysSinceLastReview"
  shows "exp (- fm_decay_rate model * daysSinceLastReview) \<le> 1
    \<and> 0 \<le> rp_success_probability (predictReviewSuccess model daysSinceLastReview)
    \<and> rp_success_probability (predictReviewSuccess model daysSinceLastReview) \<le> 0.95
    \<and> rp_success_probability (predictReviewSuccess model daysSinceLastReview)
        = Math_round (min 0.95 (fm_retrieval_strength model
                                  * exp (- fm_decay_rate model * daysSinceLastReview)
                                + fm_stability_factor model * 0.2) * 10000) / 10000
    \<and> \<bar>rp_success_probability (predictReviewSuccess model daysSinceLastReview)
         - min 0.95 (fm_retrieval_strength model
                       * exp (- fm_decay_rate model * daysSinceLastReview)
                     + fm_stability_factor model * 0.2)\<bar> \<le> 0.00005"
proof -
  define p where "p = min 0.95 (fm_retrieval_strength model
                                  * exp (- fm_decay_rate model * daysSinceLastReview)
                                + fm_stability_factor model * 0.2)"
  have eq: "rp_success_probability (predictReviewSuccess model daysSinceLastReview)
              = Math_round (p * 10000) / 10000"
    by (simp add: predictReviewSuccess_def Let_def p_def)
  have "0 \<le> fm_retrieval_strength model * exp (- fm_decay_rate model * daysSinceLastReview)"
    using assms(1) by simp
  then have p0: "0 \<le> p" using assms(2) by (simp add: p_def)
  have p1: "p \<le> 95 / 100"
    unfolding p_def by (rule order_trans [OF min.cobounded1]) simp
  have "Math_round 0 \<le> Math_round (p * 10000)"
    by (rule Math_round_mono) (use p0 in linarith)
  then have lo: "0 \<le> Math_round (p * 10000) / 10000" by simp
  have "Math_round (p * 10000) \<le> Math_round 9500"
    by (rule Math_round_mono) (use p1 in linarith)
  then have hi: "Math_round (p * 10000) / 10000 \<le> 0.95" by simp
  have cl: "\<bar>Math_round (p * 10000) / 10000 - p\<bar> \<le> 0.00005"
    using round4_close [of p] by simp
  have "0 \<le> fm_decay_rate model * daysSinceLastReview"
    using assms(3,4) by (rule mult_nonneg_nonneg)
  then have ex: "exp (- fm_decay_rate model * daysSinceLastReview) \<le> 1" by simp
  show ?thesis using ex lo hi cl unfolding eq p_def [symmetric] by simp
qed

text \<open>The theorem at the default model, zero days after the review: the value is 0.4.\<close>

theorem success_probability_rounded_witness:
  "0 \<le> fm_retrieval_strength (default_model ''w1'')
   \<and> 0 \<le> fm_stability_factor (default_model ''w1'')
   \<and> 0 \<le> fm_decay_rate (default_model ''w1'')
   \<and> (0::real) \<le> 0
   \<and> rp_success_probability (predictReviewSuccess (default_model ''w1'') 0) = 0.4
   \<and> 0 \<le> rp_success_probability (predictReviewSuccess (default_model ''w1'') 0)
   \<and> rp_success_probability (predictReviewSuccess (default_model ''w1'') 0) \<le> 0.95"
proof -
  have a: "0 \<le> fm_retrieval_strength (default_model ''w1'')"
    and b: "0 \<le> fm_stability_factor (default_model ''w1'')"
    and c: "0 \<le> fm_decay_rate (default_model ''w1'')"
    by (simp_all add: default_model_def)
  have d: "(0::real) \<le> 0" by simp
  have "rp_success_probability (predictReviewSuccess (default_model ''w1'') 0)
        = Math_round (min 0.95 (fm_retrieval_strength (default_model ''w1'')
                                  * exp (- fm_decay_rate (default_model ''w1'') * 0)
                                + fm_stability_factor (default_model ''w1'') * 0.2) * 10000)
            / 10000"
    using success_probability_rounded [OF a b c d] by blast
  also have "\<dots> = 0.4" by (simp add: default_model_def)
  finally have v: "rp_success_probability (predictReviewSuccess (default_model ''w1'') 0) = 0.4" .
  show ?thesis using a b c v by simp
qed

text \<open>
  C5 as stated fails: with retrieval strength 0, stability factor 0.0001, decay rate 0.1
  and zero days the formula gives 0.00002, and the returned value is that rounded to four
  decimals, 0.
\<close>

theorem success_probability_not_exact:
  "0 \<le> fm_retrieval_strength tiny_model \<and> 0 \<le> fm_stability_factor tiny_model
   \<and> 0 \<le> fm_decay_rate tiny_model \<and> (0::real) \<le> 0
   \<and> rp_success_probability (predictReviewSuccess tiny_model 0)
       \<noteq> min 0.95 (fm_retrieval_strength tiny_model * exp (- fm_decay_rate tiny_model * 0)
                    + fm_stability_factor tiny_model * 0.2)"
proof -
  have "\<lfloor>(1::real) / 5 + 1 / 2\<rfloor> = 0" by linarith
  then have r: "Math_round (1 / 5) = 0" by (simp add: Math_round_def)
  show ?thesis
    by (simp add: predictReviewSuccess_def tiny_model_def Let_def r)
qed

section \<open>Properties of the model of one item\<close>

lemma calculateCurrentRetrievalStrength_cong:
  assumes "\<forall>r\<in>set reviews. getDaysSince now1 (dp_timestamp r) = getDaysSince now2 (dp_timestamp r)"
  shows "calculateCurrentRetrievalStrength now1 wordMetrics reviews decayRate
           = calculateCurrentRetrievalStrength now2 wordMetrics reviews decayRate"
proof (cases "reviews = []")
  case True
  then show ?thesis by (simp add: calculateCurrentRetrievalStrength_def)
next
  case False
  then have "reviews ! (length reviews - 1) \<in> set reviews" by simp
  then have "getDaysSince now1 (dp_timestamp (reviews ! (length reviews - 1)))
               = getDaysSince now2 (dp_timestamp (reviews ! (length reviews - 1)))"
    using assms by blast
  then show ?thesis by (simp add: calculateCurrentRetrievalStrength_def Let_def)
qed

lemma calculateModelConfidence_cong:
  assumes "\<forall>r\<in>set reviews. getDaysSince now1 (dp_timestamp r) = getDaysSince now2 (dp_timestamp r)"
  shows "calculateModelConfidence now1 reviews = calculateModelConfidence now2 reviews"
proof -
  have "filter (\<lambda>r. getDaysSince now1 (dp_timestamp r) < 30) reviews
          = filter (\<lambda>r. getDaysSince now2 (dp_timestamp r) < 30) reviews"
    by (rule filter_cong) (use assms in auto)
  then show ?thesis by (simp add: calculateModelConfidence_def)
qed

lemma getDaysBetween_same [simp]: "getDaysBetween t t = 0"
  by (simp add: getDaysBetween_def Math_ceil_def)

lemma getDaysBetween_days: "0 \<le> n \<Longrightarrow> getDaysBetween t (t + n * msPerDay) = of_int n"
  by (simp add: getDaysBetween_def Math_ceil_def msPerDay_def abs_mult)

text \<open>
  C4: when no event of the log carries the word id of the item in its metadata, the model
  is exactly the default one: initial strength 0.3, decay rate 0.1, stability factor 0.5,
  retrieval strength 0.3, optimal interval 1, confidence level 0.2.
\<close>

theorem no_history_default_model:
  assumes "\<forall>dp\<in>set reviewHistory. \<not> metadata_word_id_is dp (wm_word_id wordMetrics)"
  shows "calculateForgettingCurve now wordMetrics reviewHistory
           = Inr \<lparr> fm_word_id = wm_word_id wordMetrics,
                   fm_initial_strength = 0.3,
                   fm_decay_rate = 0.1,
                   fm_stability_factor = 0.5,
                   fm_retrieval_strength = 0.3,
                   fm_optimal_interval = 1,
                   fm_confidence_level = 0.2 \<rparr>"
  using calculateForgettingCurve_no_history [OF assms] by (simp add: default_model_def)

text \<open>The theorem on a log of two events, one of another word and one without metadata.\<close>

theorem no_history_default_model_witness:
  "\<not> metadata_word_id_is (example_event 0 accuracy_rate 0.9 ''w2'') (wm_word_id (example_metrics None))
   \<and> \<not> metadata_word_id_is
          \<lparr> dp_timestamp = 5, dp_metric_type = response_time, dp_value = 800, dp_metadata = None \<rparr>
          (wm_word_id (example_metrics None))
   \<and> calculateForgettingCurve 86400000 (example_metrics None)
        [example_event 0 accuracy_rate 0.9 ''w2'',
         \<lparr> dp_timestamp = 5, dp_metric_type = response_time, dp_value = 800, dp_metadata = None \<rparr>]
       = Inr \<lparr> fm_word_id = ''w1'', fm_initial_strength = 0.3, fm_decay_rate = 0.1,
               fm_stability_factor = 0.5, fm_retrieval_strength = 0.3, fm_optimal_interval = 1,
               fm_confidence_level = 0.2 \<rparr>"
proof -
  let ?evs = "[example_event 0 accuracy_rate 0.9 ''w2'',
         \<lparr> dp_timestamp = 5, dp_metric_type = response_time, dp_value = 800, dp_metadata = None \<rparr>]"
  have a: "\<not> metadata_word_id_is (example_event 0 accuracy_rate 0.9 ''w2'') (wm_word_id (example_metrics None))"
    by (simp add: metadata_word_id_is_def example_event_def example_metrics_def)
  have b: "\<not> metadata_word_id_is
          \<lparr> dp_timestamp = 5, dp_metric_type = response_time, dp_value = 800, dp_metadata = None \<rparr>
          (wm_word_id (example_metrics None))"
    by (simp add: metadata_word_id_is_def)
  have h: "\<forall>dp\<in>set ?evs. \<not> metadata_word_id_is dp (wm_word_id (example_metrics None))"
    using a b by simp
  have w: "wm_word_id (example_metrics None) = ''w1''" by (simp add: example_metrics_def)
  show ?thesis
    using a b no_history_default_model [OF h, of 86400000] unfolding w by simp
qed

text \<open>
  C8, as the code has it: the model is a function of the item, the event log and the
  clock. The word id, the initial strength, the decay rate and the stability factor do not
  depend on the clock; and two clock readings at which every event of the item is the same
  number of days old (as \<open>getDaysSince\<close> counts them) give the same model. In particular
  the model of an item without events does not depend on the clock.
\<close>

theorem model_depends_on_clock_by_days:
  "(\<exists>x y. calculateForgettingCurve now1 wordMetrics reviewHistory = Inr x
        \<and> calculateForgettingCurve now2 wordMetrics reviewHistory = Inr y
        \<and> fm_word_id x = fm_word_id y
        \<and> fm_initial_strength x = fm_initial_strength y
        \<and> fm_decay_rate x = fm_decay_rate y
        \<and> fm_stability_factor x = fm_stability_factor y)
   \<and> ((\<forall>dp\<in>set reviewHistory. metadata_word_id_is dp (wm_word_id wordMetrics)
          \<longrightarrow> getDaysSince now1 (dp_timestamp dp) = getDaysSince now2 (dp_timestamp dp))
       \<longrightarrow> calculateForgettingCurve now1 wordMetrics reviewHistory
             = calculateForgettingCurve now2 wordMetrics reviewHistory)"
proof -
  define reviews where "reviews = sort_key dp_timestamp
     (filter (\<lambda>dp. metadata_word_id_is dp (wm_word_id wordMetrics)) reviewHistory)"
  have sub: "set reviews = {dp \<in> set reviewHistory. metadata_word_id_is dp (wm_word_id wordMetrics)}"
    by (auto simp: reviews_def)
  show ?thesis
  proof (cases reviews)
    case Nil
    then show ?thesis
      unfolding calculateForgettingCurve_def reviews_def [symmetric] by simp
  next
    case (Cons r rs)
    then have "calculateInitialStrength reviews
                 = Inr (if dp_metric_type r = accuracy_rate
                        then max 0.1 (min 0.9 (dp_value r)) else 0.3)"
      by (simp add: calculateInitialStrength_def)
    then obtain s where s: "calculateInitialStrength reviews = Inr s" ..
    have fields: "\<exists>x y. calculateForgettingCurve now1 wordMetrics reviewHistory = Inr x
        \<and> calculateForgettingCurve now2 wordMetrics reviewHistory = Inr y
        \<and> fm_word_id x = fm_word_id y
        \<and> fm_initial_strength x = fm_initial_strength y
        \<and> fm_decay_rate x = fm_decay_rate y
        \<and> fm_stability_factor x = fm_stability_factor y"
      unfolding calculateForgettingCurve_def reviews_def [symmetric]
      using Cons s by (simp add: Let_def)
    have whole: "calculateForgettingCurve now1 wordMetrics reviewHistory
             = calculateForgettingCurve now2 wordMetrics reviewHistory"
      if h: "\<forall>dp\<in>set reviewHistory. metadata_word_id_is dp (wm_word_id wordMetrics)
          \<longrightarrow> getDaysSince now1 (dp_timestamp dp) = getDaysSince now2 (dp_timestamp dp)"
    proof -
      have eqd: "\<forall>r\<in>set reviews. getDaysSince now1 (dp_timestamp r) = getDaysSince now2 (dp_timestamp r)"
        using h sub by blast
      have a: "calculateCurrentRetrievalStrength now1 wordMetrics reviews d
           = calculateCurrentRetrievalStrength now2 wordMetrics reviews d" for d
        by (rule calculateCurrentRetrievalStrength_cong [OF eqd])
      have b: "calculateModelConfidence now1 reviews = calculateModelConfidence now2 reviews"
        by (rule calculateModelConfidence_cong [OF eqd])
      show ?thesis
        unfolding calculateForgettingCurve_def reviews_def [symmetric]
        by (simp add: Let_def a b s)
    qed
    show ?thesis using fields whole by blast
  qed
qed

text \<open>The theorem for one event and two clock readings within the day after it.\<close>

theorem model_depends_on_clock_by_days_witness:
  "metadata_word_id_is (example_event 0 accuracy_rate 0.9 ''w1'')
     (wm_word_id (example_metrics None))
   \<and> getDaysSince 1 (dp_timestamp (example_event 0 accuracy_rate 0.9 ''w1''))
       = getDaysSince 2 (dp_timestamp (example_event 0 accuracy_rate 0.9 ''w1''))
   \<and> calculateForgettingCurve 1 (example_metrics None)
        [example_event 0 accuracy_rate 0.9 ''w1'']
       = calculateForgettingCurve 2 (example_metrics None)
           [example_event 0 accuracy_rate 0.9 ''w1'']"
proof -
  let ?e = "example_event 0 accuracy_rate 0.9 ''w1''"
  have a: "metadata_word_id_is ?e (wm_word_id (example_metrics None))"
    by (simp add: metadata_word_id_is_def example_event_def example_metrics_def)
  have c1: "\<lceil>(1::real) / 86400000\<rceil> = 1" by (rule ceiling_unique) simp_all
  have c2: "\<lceil>(1::real) / 43200000\<rceil> = 1" by (rule ceiling_unique) simp_all
  have b: "getDaysSince 1 (dp_timestamp ?e) = getDaysSince 2 (dp_timestamp ?e)"
    by (simp add: getDaysSince_def getDaysBetween_def Math_ceil_def msPerDay_def
        example_event_def c1 c2)
  have h: "\<forall>dp\<in>set [?e]. metadata_word_id_is dp (wm_word_id (example_metrics None))
             \<longrightarrow> getDaysSince 1 (dp_timestamp dp) = getDaysSince 2 (dp_timestamp dp)"
    using b by simp
  show ?thesis
    using a b h model_depends_on_clock_by_days [of 1 "example_metrics None" "[?e]" 2]
    by blast
qed

text \<open>
  C8 as stated fails: the same item and the same one-event log give different models when
  the clock reads the instant of the event and when it reads forty days later (the
  confidence level is 0.15 in the first call and 0.1 in the second).
\<close>

theorem model_changes_with_clock:
  "calculateForgettingCurve 0 (example_metrics None) [example_event 0 accuracy_rate 0.9 ''w1'']
     \<noteq> calculateForgettingCurve (40 * msPerDay) (example_metrics None)
          [example_event 0 accuracy_rate 0.9 ''w1'']"
proof -
  let ?e = "example_event 0 accuracy_rate 0.9 ''w1''"
  have m: "filter (\<lambda>dp. metadata_word_id_is dp (wm_word_id (example_metrics None))) [?e] = [?e]"
    by (simp add: metadata_word_id_is_def example_event_def example_metrics_def)
  have d0: "getDaysSince 0 (dp_timestamp ?e) = 0"
    by (simp add: getDaysSince_def example_event_def)
  have d40: "getDaysSince (40 * msPerDay) (dp_timestamp ?e) = 40"
    using getDaysBetween_days [of 40 0] by (simp add: getDaysSince_def example_event_def)
  have c0: "calculateModelConfidence 0 [?e] = 0.15"
    by (simp add: calculateModelConfidence_def d0)
  have c40: "calculateModelConfidence (40 * msPerDay) [?e] = 0.1"
    by (simp add: calculateModelConfidence_def d40)
  have i: "calculateInitialStrength [?e] = Inr 0.9"
    by (simp add: calculateInitialStrength_def example_event_def)
  have a: "map_sum id fm_confidence_level
             (calculateForgettingCurve 0 (example_metrics None) [?e]) = Inr 0.15"
    unfolding calculateForgettingCurve_def m by (simp add: i c0 Let_def)
  have b: "map_sum id fm_confidence_level
             (calculateForgettingCurve (40 * msPerDay) (example_metrics None) [?e]) = Inr 0.1"
    unfolding calculateForgettingCurve_def m by (simp add: i c40 Let_def)
  show ?thesis
  proof
    assume "calculateForgettingCurve 0 (example_metrics None) [?e]
              = calculateForgettingCurve (40 * msPerDay) (example_metrics None) [?e]"
    then have "(Inr 0.15 :: error + real) = Inr 0.1" using a b by simp
    then show False by simp
  qed
qed

section \<open>Properties of the insights\<close>

text \<open>
  C10: \<open>getForgettingCurveInsights\<close> returns, and every item without a matching event is
  counted in \<open>words_due\<close> and in \<open>words_overdue\<close>: its days since the last review are 999
  and its model is the default one with optimal interval 1, so both tests succeed.
\<close>

theorem no_history_due_and_overdue:
  "\<exists>ins. getForgettingCurveInsights now allWordMetrics allReviewData = Inr ins
     \<and> length (filter (\<lambda>metrics. \<forall>dp\<in>set allReviewData.
                         \<not> metadata_word_id_is dp (wm_word_id metrics)) allWordMetrics)
         \<le> ins_words_due ins
     \<and> length (filter (\<lambda>metrics. \<forall>dp\<in>set allReviewData.
                         \<not> metadata_word_id_is dp (wm_word_id metrics)) allWordMetrics)
         \<le> ins_words_overdue ins
     \<and> (\<forall>metrics\<in>set allWordMetrics.
           (\<forall>dp\<in>set allReviewData. \<not> metadata_word_id_is dp (wm_word_id metrics))
           \<longrightarrow> getDaysSince_word now (wm_word_id metrics) allReviewData = 999
               \<and> (\<exists>model. calculateForgettingCurve now metrics allReviewData = Inr model
                     \<and> fm_optimal_interval model = 1
                     \<and> getDaysSince_word now (fm_word_id model) allReviewData
                          \<ge> fm_optimal_interval model
                     \<and> getDaysSince_word now (fm_word_id model) allReviewData
                          > fm_optimal_interval model * 1.5))"
proof -
  let ?noev = "\<lambda>metrics. \<forall>dp\<in>set allReviewData. \<not> metadata_word_id_is dp (wm_word_id metrics)"
  let ?g = "\<lambda>metrics. projr (calculateForgettingCurve now metrics allReviewData)"
  let ?due = "\<lambda>model. getDaysSince_word now (fm_word_id model) allReviewData
                          \<ge> fm_optimal_interval model"
  let ?over = "\<lambda>model. getDaysSince_word now (fm_word_id model) allReviewData
                          > fm_optimal_interval model * 1.5"
  have one: "getDaysSince_word now (wm_word_id m) allReviewData = 999
             \<and> calculateForgettingCurve now m allReviewData = Inr (default_model (wm_word_id m))"
    if "?noev m" for m
    using that getDaysSince_word_no_history calculateForgettingCurve_no_history by blast
  have both: "?due (?g m) \<and> ?over (?g m)" if "?noev m" for m
    using one [OF that] by (simp add: default_model_def)
  obtain ins where ins: "getForgettingCurveInsights now allWordMetrics allReviewData = Inr ins"
    and d: "ins_words_due ins = length (filter ?due (models_of now allWordMetrics allReviewData))"
    and v: "ins_words_overdue ins = length (filter ?over (models_of now allWordMetrics allReviewData))"
    using getForgettingCurveInsights_returns [of now allWordMetrics allReviewData] by blast
  have d': "ins_words_due ins = length (filter (\<lambda>m. ?due (?g m)) allWordMetrics)"
    unfolding d models_of_def filter_map by (simp add: comp_def)
  have v': "ins_words_overdue ins = length (filter (\<lambda>m. ?over (?g m)) allWordMetrics)"
    unfolding v models_of_def filter_map by (simp add: comp_def)
  have "length (filter ?noev allWordMetrics) \<le> ins_words_due ins"
    unfolding d' by (rule length_filter_mono) (use both in blast)
  moreover have "length (filter ?noev allWordMetrics) \<le> ins_words_overdue ins"
    unfolding v' by (rule length_filter_mono) (use both in blast)
  moreover have "\<forall>metrics\<in>set allWordMetrics. ?noev metrics
           \<longrightarrow> getDaysSince_word now (wm_word_id metrics) allReviewData = 999
               \<and> (\<exists>model. calculateForgettingCurve now metrics allReviewData = Inr model
                     \<and> fm_optimal_interval model = 1 \<and> ?due model \<and> ?over model)"
    using one by (auto simp: default_model_def)
  ultimately show ?thesis using ins by blast
qed

text \<open>The theorem on two items, only the second of which has an event.\<close>

theorem no_history_due_and_overdue_witness:
  "(\<exists>ins. getForgettingCurveInsights 0
             [example_metrics None, (example_metrics None)\<lparr>wm_word_id := ''w2''\<rparr>]
             [example_event 0 accuracy_rate 0.9 ''w2''] = Inr ins
        \<and> 1 \<le> ins_words_due ins \<and> 1 \<le> ins_words_overdue ins)
   \<and> getDaysSince_word 0 (wm_word_id (example_metrics None))
        [example_event 0 accuracy_rate 0.9 ''w2''] = 999"
proof -
  let ?ms = "[example_metrics None, (example_metrics None)\<lparr>wm_word_id := ''w2''\<rparr>]"
  let ?evs = "[example_event 0 accuracy_rate 0.9 ''w2'']"
  have n: "filter (\<lambda>metrics. \<forall>dp\<in>set ?evs. \<not> metadata_word_id_is dp (wm_word_id metrics)) ?ms
             = [example_metrics None]"
    by (simp add: metadata_word_id_is_def example_event_def example_metrics_def)
  have m: "example_metrics None \<in> set ?ms" by simp
  have e: "\<forall>dp\<in>set ?evs. \<not> metadata_word_id_is dp (wm_word_id (example_metrics None))"
    by (simp add: metadata_word_id_is_def example_event_def example_metrics_def)
  show ?thesis
    using m e no_history_due_and_overdue [of 0 ?ms ?evs] unfolding n
    by (metis One_nat_def length_Cons list.size(3))
qed

text \<open>
  C6 fails on the empty collection of items: nothing is raised, but \<open>average_retention\<close>
  is the quotient 0 / 0 of an unguarded division, which is not a number, and the trend is
  \<open>stable\<close> only because both of its tests are false on such a value.
\<close>

theorem insights_of_nothing_not_a_number:
  "getForgettingCurveInsights now [] allReviewData
     = Inr \<lparr> ins_total_words = 0, ins_words_due = 0, ins_words_overdue = 0,
             ins_optimal_daily_reviews = 0, ins_average_retention = None,
             ins_memory_stability_trend = stable,
             ins_most_forgettable_words = [], ins_strongest_memories = [] \<rparr>"
  by (simp add: getForgettingCurveInsights_def calculateMemoryStabilityTrend_def js_div_def
      getMostForgettableWords_def getStrongestMemories_def Let_def)

section \<open>Properties of the aggregation\<close>

lemma round4_within: "\<bar>Math_round (x * 10000) / 10000 - x\<bar> \<le> 0.00005"
  using round4_close [of x] by simp

lemma foldl_plus_sum_list:
  "foldl (\<lambda>acc v. acc + f v) a vs = a + sum_list (map f vs)" for a :: real
  by (induction vs arbitrary: a) simp_all

lemma keys_push_value: "fst ` set (push_value k v acc) = insert k (fst ` set acc)"
  by (induction k v acc rule: push_value.induct) auto

lemma map_fst_push_value:
  "map fst (push_value k v acc)
     = (if k \<in> fst ` set acc then map fst acc else map fst acc @ [k])"
  by (induction k v acc rule: push_value.induct) (auto simp: rev_image_eqI)

lemma map_of_push_value:
  "map_of (push_value k v acc)
     = (map_of acc)(k \<mapsto> (case map_of acc k of None \<Rightarrow> [] | Some vs \<Rightarrow> vs) @ [v])"
  by (induction k v acc rule: push_value.induct) (auto simp: fun_eq_iff)

lemma distinct_push_value:
  "distinct (map fst acc) \<Longrightarrow> distinct (map fst (push_value k v acc))"
  by (simp add: map_fst_push_value)

lemma grouped_keys:
  "fst ` set (foldl (\<lambda>acc p. push_value (key p) (val p) acc) acc ps)
     = fst ` set acc \<union> key ` set ps"
  by (induction ps arbitrary: acc) (simp_all add: keys_push_value)

lemma grouped_distinct:
  "distinct (map fst acc)
     \<Longrightarrow> distinct (map fst (foldl (\<lambda>acc p. push_value (key p) (val p) acc) acc ps))"
proof (induction ps arbitrary: acc)
  case Nil
  then show ?case by simp
next
  case (Cons p ps)
  have "distinct (map fst (push_value (key p) (val p) acc))"
    using Cons.prems by (rule distinct_push_value)
  then show ?case using Cons.IH by simp
qed

lemma grouped_values:
  "map_of (foldl (\<lambda>acc p. push_value (key p) (val p) acc) acc ps) k
     = (if k \<in> fst ` set acc \<or> k \<in> key ` set ps
        then Some ((case map_of acc k of None \<Rightarrow> [] | Some vs \<Rightarrow> vs)
                    @ map val (filter (\<lambda>p. key p = k) ps))
        else None)"
proof (induction ps arbitrary: acc)
  case Nil
  show ?case
  proof (cases "map_of acc k")
    case None
    then show ?thesis by (simp add: map_of_eq_None_iff)
  next
    case (Some vs)
    then have "k \<in> fst ` set acc" by (rule map_of_SomeD [THEN rev_image_eqI]) simp
    then show ?thesis using Some by simp
  qed
next
  case (Cons p ps)
  show ?case
  proof (cases "key p = k")
    case True
    then show ?thesis
      by (simp add: Cons.IH keys_push_value map_of_push_value)
  next
    case False
    then show ?thesis
      by (simp add: Cons.IH keys_push_value map_of_push_value)
  qed
qed

lemma grouped_entry:
  assumes "(k, vs) \<in> set (foldl (\<lambda>acc p. push_value (key p) (val p) acc) [] ps)"
  shows "vs = map val (filter (\<lambda>p. key p = k) ps) \<and> k \<in> key ` set ps"
proof -
  let ?g = "foldl (\<lambda>acc p. push_value (key p) (val p) acc) [] ps"
  have "distinct (map fst ?g)" by (rule grouped_distinct) simp
  then have "map_of ?g k = Some vs" using assms by simp
  then show ?thesis by (simp add: grouped_values split: if_splits)
qed

lemma aggregate_of_fields:
  "agg_period (aggregate_of metricType (k, vs)) = k"
  "agg_metric_type (aggregate_of metricType (k, vs)) = metricType"
  "agg_count (aggregate_of metricType (k, vs)) = length vs"
  "agg_sum (aggregate_of metricType (k, vs)) = sum_list vs"
  "agg_min (aggregate_of metricType (k, vs)) = Min (set vs)"
  "agg_max (aggregate_of metricType (k, vs)) = Max (set vs)"
  "agg_average (aggregate_of metricType (k, vs)) = Math_round (mean vs * 10000) / 10000"
  "agg_std_deviation (aggregate_of metricType (k, vs))
     = Math_round (population_stddev vs * 10000) / 10000"
  using foldl_plus_sum_list [of "\<lambda>v. v" 0 vs]
    foldl_plus_sum_list [of "\<lambda>v. (v - sum_list vs / real (length vs))\<^sup>2" 0 vs]
  by (simp_all add: aggregate_of_def Let_def mean_def population_stddev_def
      Math_min_def Math_max_def)

lemma aggregateDataByPeriod_eq:
  "aggregateDataByPeriod dataPoints metricType period
     = sort_key agg_period
         (map (aggregate_of metricType)
            (foldl (\<lambda>acc point.
                      push_value (getPeriodKey (dp_timestamp point) period) (dp_value point) acc)
               [] (filter (\<lambda>point. dp_metric_type point = metricType) dataPoints)))"
  by (simp add: aggregateDataByPeriod_def Let_def)

lemma periods_of_buckets:
  "map agg_period (map (aggregate_of metricType) grouped) = map fst grouped"
  by (induction grouped) (auto simp: aggregate_of_fields)

lemma distinct_map_sort_key: "distinct (map f (sort_key f xs)) = distinct (map f xs)"
  by (simp add: distinct_map)

lemma buckets_summarise_their_values:
  "sorted (map agg_period (aggregateDataByPeriod dataPoints metricType period))
   \<and> distinct (map agg_period (aggregateDataByPeriod dataPoints metricType period))
   \<and> set (map agg_period (aggregateDataByPeriod dataPoints metricType period))
       = (\<lambda>point. getPeriodKey (dp_timestamp point) period)
           ` {point \<in> set dataPoints. dp_metric_type point = metricType}
   \<and> (\<forall>bucket\<in>set (aggregateDataByPeriod dataPoints metricType period).
         (let vs = bucket_values dataPoints metricType period (agg_period bucket)
          in vs \<noteq> []
             \<and> agg_metric_type bucket = metricType
             \<and> agg_count bucket = length vs
             \<and> agg_sum bucket = sum_list vs
             \<and> agg_min bucket = Min (set vs)
             \<and> agg_max bucket = Max (set vs)
             \<and> agg_average bucket = Math_round (mean vs * 10000) / 10000
             \<and> \<bar>agg_average bucket - mean vs\<bar> \<le> 0.00005
             \<and> agg_std_deviation bucket = Math_round (population_stddev vs * 10000) / 10000
             \<and> \<bar>agg_std_deviation bucket - population_stddev vs\<bar> \<le> 0.00005))"
proof -
  define key where "key = (\<lambda>point::LearningDataPoint. getPeriodKey (dp_timestamp point) period)"
  define fp where "fp = filter (\<lambda>point. dp_metric_type point = metricType) dataPoints"
  define grouped where
    "grouped = foldl (\<lambda>acc point. push_value (key point) (dp_value point) acc) [] fp"
  have res: "aggregateDataByPeriod dataPoints metricType period
               = sort_key agg_period (map (aggregate_of metricType) grouped)"
    unfolding grouped_def fp_def key_def by (rule aggregateDataByPeriod_eq)
  have dg: "distinct (map fst grouped)"
    unfolding grouped_def by (rule grouped_distinct) simp
  have kg: "fst ` set grouped = key ` set fp"
    unfolding grouped_def by (simp add: grouped_keys)
  have per: "map agg_period (map (aggregate_of metricType) grouped) = map fst grouped"
    by (rule periods_of_buckets)
  have s: "sorted (map agg_period (aggregateDataByPeriod dataPoints metricType period))"
    unfolding res by (rule sorted_sort_key)
  have "distinct (map agg_period (map (aggregate_of metricType) grouped))"
    unfolding per by (rule dg)
  then have d: "distinct (map agg_period (aggregateDataByPeriod dataPoints metricType period))"
    unfolding res by (simp only: distinct_map_sort_key)
  have "set (map agg_period (aggregateDataByPeriod dataPoints metricType period))
          = set (map agg_period (map (aggregate_of metricType) grouped))"
    unfolding res by (simp only: set_map set_sort)
  also have "\<dots> = fst ` set grouped" unfolding per by simp
  also have "\<dots> = key ` {point \<in> set dataPoints. dp_metric_type point = metricType}"
    unfolding kg fp_def by simp
  finally have k: "set (map agg_period (aggregateDataByPeriod dataPoints metricType period))
       = key ` {point \<in> set dataPoints. dp_metric_type point = metricType}" .
  have b: "let vs = bucket_values dataPoints metricType period (agg_period bucket)
          in vs \<noteq> []
             \<and> agg_metric_type bucket = metricType
             \<and> agg_count bucket = length vs
             \<and> agg_sum bucket = sum_list vs
             \<and> agg_min bucket = Min (set vs)
             \<and> agg_max bucket = Max (set vs)
             \<and> agg_average bucket = Math_round (mean vs * 10000) / 10000
             \<and> \<bar>agg_average bucket - mean vs\<bar> \<le> 0.00005
             \<and> agg_std_deviation bucket = Math_round (population_stddev vs * 10000) / 10000
             \<and> \<bar>agg_std_deviation bucket - population_stddev vs\<bar> \<le> 0.00005"
    if "bucket \<in> set (aggregateDataByPeriod dataPoints metricType period)" for bucket
  proof -
    from that obtain k vs where in_g: "(k, vs) \<in> set grouped"
      and bk: "bucket = aggregate_of metricType (k, vs)"
      unfolding res by auto
    have e: "vs = map dp_value (filter (\<lambda>p. key p = k) fp) \<and> k \<in> key ` set fp"
      using in_g unfolding grouped_def by (rule grouped_entry)
    then have vs: "vs = bucket_values dataPoints metricType period k"
      by (simp add: bucket_values_def fp_def key_def)
    from e obtain p where "p \<in> set fp" "key p = k" by auto
    then have "filter (\<lambda>p. key p = k) fp \<noteq> []" by (auto simp: filter_empty_conv)
    then have ne: "vs \<noteq> []" using e by simp
    show ?thesis
      unfolding bk aggregate_of_fields vs [symmetric] Let_def
      using ne round4_within by simp
  qed
  show ?thesis using s d k b unfolding key_def by blast
qed

lemma grouped_single_key_acc:
  "\<forall>p\<in>set ps. key p = k
     \<Longrightarrow> foldl (\<lambda>acc p. push_value (key p) (val p) acc) [(k, vs)] ps = [(k, vs @ map val ps)]"
  by (induction ps arbitrary: vs) simp_all

lemma grouped_single_key:
  assumes "\<forall>p\<in>set ps. key p = k" and "ps \<noteq> []"
  shows "foldl (\<lambda>acc p. push_value (key p) (val p) acc) [] ps = [(k, map val ps)]"
proof (cases ps)
  case Nil
  then show ?thesis using assms(2) by simp
next
  case (Cons p ps')
  then have "\<forall>p\<in>set ps'. key p = k" and "key p = k" using assms(1) by simp_all
  then show ?thesis using Cons grouped_single_key_acc [where ps = ps' and key = key and k = k and vs = "[val p]" and val = val] by simp
qed

lemma sqrt_eight_thirds_rounded: "Math_round (sqrt (8 / 3) * 10000) = 16330"
proof -
  have lo: "(163295 / 100000 :: real) \<le> sqrt (8 / 3)"
    by (rule real_le_rsqrt) (simp add: power2_eq_square)
  have hi: "sqrt (8 / 3) < (163305 / 100000 :: real)"
    by (rule real_less_lsqrt) (simp_all add: power2_eq_square)
  have "\<lfloor>sqrt (8 / 3) * 10000 + 1 / 2\<rfloor> = 16330"
    by (rule floor_unique) (use lo hi in simp_all)
  then show ?thesis by (simp add: Math_round_def)
qed

lemma aggregate_of_2_4_6:
  "aggregate_of metricType (periodKey, [2, 4, 6])
     = \<lparr> agg_period = periodKey, agg_metric_type = metricType, agg_count = 3, agg_sum = 12,
         agg_average = 4, agg_min = 2, agg_max = 6, agg_std_deviation = 1.633 \<rparr>"
proof -
  have v: "((2 - 4)\<^sup>2 + (4 - 4)\<^sup>2 + (6 - 4)\<^sup>2) / 3 = (8 / 3 :: real)" by simp
  have a: "Math_round 40000 = 40000" by simp
  show ?thesis
    unfolding aggregate_of_def Math_min_def Math_max_def
    by (simp add: Let_def sqrt_eight_thirds_rounded)
qed

lemma aggregate_single_bucket_2_4_6:
  assumes vs: "map dp_value (filter (\<lambda>point. dp_metric_type point = metricType) dataPoints)
                 = [2, 4, 6]"
    and one: "\<forall>point\<in>set dataPoints. dp_metric_type point = metricType
                \<longrightarrow> getPeriodKey (dp_timestamp point) period = periodKey"
  shows "aggregateDataByPeriod dataPoints metricType period
           = [\<lparr> agg_period = periodKey, agg_metric_type = metricType, agg_count = 3,
                agg_sum = 12, agg_average = 4, agg_min = 2, agg_max = 6,
                agg_std_deviation = 1.633 \<rparr>]"
proof -
  let ?fp = "filter (\<lambda>point. dp_metric_type point = metricType) dataPoints"
  have ne: "?fp \<noteq> []" using vs by auto
  have k: "\<forall>p\<in>set ?fp. getPeriodKey (dp_timestamp p) period = periodKey"
    using one by simp
  have "foldl (\<lambda>acc point.
                 push_value (getPeriodKey (dp_timestamp point) period) (dp_value point) acc)
          [] ?fp = [(periodKey, map dp_value ?fp)]"
    using k ne by (rule grouped_single_key)
  then show ?thesis
    unfolding aggregateDataByPeriod_eq vs by (simp add: aggregate_of_2_4_6)
qed

text \<open>
  C9: when the events of the requested metric kind all have one period key and their
  values are 2, 4, 6 in this order, the result is the single bucket with count 3, sum 12,
  mean 4, minimum 2, maximum 6 and standard deviation 1.633 (the population value, about
  1.63299, rounded to four decimals). In general the period keys of the result are sorted
  ascending without repetition and are exactly the keys of the events of that kind, and
  each bucket carries the count, sum, minimum and maximum of the values with its key, and
  their mean and population standard deviation rounded to four decimals.
\<close>

theorem aggregate_buckets:
  "(map dp_value (filter (\<lambda>point. dp_metric_type point = metricType) dataPoints) = [2, 4, 6]
      \<and> (\<forall>point\<in>set dataPoints. dp_metric_type point = metricType
            \<longrightarrow> getPeriodKey (dp_timestamp point) period = periodKey)
    \<longrightarrow> aggregateDataByPeriod dataPoints metricType period
          = [\<lparr> agg_period = periodKey, agg_metric_type = metricType, agg_count = 3,
               agg_sum = 12, agg_average = 4, agg_min = 2, agg_max = 6,
               agg_std_deviation = 1.633 \<rparr>])
   \<and> sorted (map agg_period (aggregateDataByPeriod dataPoints metricType period))
   \<and> distinct (map agg_period (aggregateDataByPeriod dataPoints metricType period))
   \<and> set (map agg_period (aggregateDataByPeriod dataPoints metricType period))
       = (\<lambda>point. getPeriodKey (dp_timestamp point) period)
           ` {point \<in> set dataPoints. dp_metric_type point = metricType}
   \<and> (\<forall>bucket\<in>set (aggregateDataByPeriod dataPoints metricType period).
         (let vs = bucket_values dataPoints metricType period (agg_period bucket)
          in vs \<noteq> []
             \<and> agg_metric_type bucket = metricType
             \<and> agg_count bucket = length vs
             \<and> agg_sum bucket = sum_list vs
             \<and> agg_min bucket = Min (set vs)
             \<and> agg_max bucket = Max (set vs)
             \<and> agg_average bucket = Math_round (mean vs * 10000) / 10000
             \<and> \<bar>agg_average bucket - mean vs\<bar> \<le> 0.00005
             \<and> agg_std_deviation bucket = Math_round (population_stddev vs * 10000) / 10000
             \<and> \<bar>agg_std_deviation bucket - population_stddev vs\<bar> \<le> 0.00005))"
proof (rule conjI)
  show "map dp_value (filter (\<lambda>point. dp_metric_type point = metricType) dataPoints) = [2, 4, 6]
      \<and> (\<forall>point\<in>set dataPoints. dp_metric_type point = metricType
            \<longrightarrow> getPeriodKey (dp_timestamp point) period = periodKey)
    \<longrightarrow> aggregateDataByPeriod dataPoints metricType period
          = [\<lparr> agg_period = periodKey, agg_metric_type = metricType, agg_count = 3,
               agg_sum = 12, agg_average = 4, agg_min = 2, agg_max = 6,
               agg_std_deviation = 1.633 \<rparr>]"
    using aggregate_single_bucket_2_4_6 [of metricType dataPoints period periodKey]
    by (intro impI) (elim conjE)
qed (rule buckets_summarise_their_values)

text \<open>The theorem on the sample log, aggregated by day.\<close>

theorem aggregate_buckets_witness:
  "map dp_value (filter (\<lambda>point. dp_metric_type point = accuracy_rate) example_log) = [2, 4, 6]
   \<and> getPeriodKey 0 day = ''1970-01-01''
   \<and> getPeriodKey 7200000 day = ''1970-01-01''
   \<and> getPeriodKey 10800000 day = ''1970-01-01''
   \<and> aggregateDataByPeriod example_log accuracy_rate day
       = [\<lparr> agg_period = ''1970-01-01'', agg_metric_type = accuracy_rate, agg_count = 3,
            agg_sum = 12, agg_average = 4, agg_min = 2, agg_max = 6,
            agg_std_deviation = 1.633 \<rparr>]
   \<and> bucket_values example_log accuracy_rate day ''1970-01-01'' \<noteq> []"
proof -
  have k0: "getPeriodKey 0 day = ''1970-01-01''" by code_simp
  have k2: "getPeriodKey 7200000 day = ''1970-01-01''" by code_simp
  have k3: "getPeriodKey 10800000 day = ''1970-01-01''" by code_simp
  have vs: "map dp_value (filter (\<lambda>point. dp_metric_type point = accuracy_rate) example_log)
              = [2, 4, 6]"
    by (simp add: example_log_def example_event_def)
  have one: "\<forall>point\<in>set example_log. dp_metric_type point = accuracy_rate
               \<longrightarrow> getPeriodKey (dp_timestamp point) day = ''1970-01-01''"
    by (simp add: example_log_def example_event_def k0 k2 k3)
  note t = aggregate_buckets [of accuracy_rate example_log day "''1970-01-01''"]
  from t vs one have r: "aggregateDataByPeriod example_log accuracy_rate day
       = [\<lparr> agg_period = ''1970-01-01'', agg_metric_type = accuracy_rate, agg_count = 3,
            agg_sum = 12, agg_average = 4, agg_min = 2, agg_max = 6,
            agg_std_deviation = 1.633 \<rparr>]"
    by blast
  from t have "\<forall>bucket\<in>set (aggregateDataByPeriod example_log accuracy_rate day).
       bucket_values example_log accuracy_rate day (agg_period bucket) \<noteq> []"
    by (simp add: Let_def)
  then have b: "bucket_values example_log accuracy_rate day ''1970-01-01'' \<noteq> []"
    unfolding r by simp
  show ?thesis using k0 k2 k3 vs r b by blast
qed

section \<open>Properties of the pattern detection\<close>

lemma analyzeSessionPatterns_micro:
  "analyzeSessionPatterns (replicate 20 (example_session 3)) = [micro_pattern]"
  by (simp add: analyzeSessionPatterns_def example_session_def micro_pattern_def Let_def
      getDaySpan_def Math_ceil_def)

lemma grouped_replicate:
  "0 < n \<Longrightarrow> foldl (\<lambda>acc p. push_value (key p) (val p) acc) [] (replicate n x)
     = [(key x, replicate n (val x))]"
  using grouped_single_key [of "replicate n x" key "key x" val] by simp

lemma analyzeTemporalPatterns_example:
  "analyzeTemporalPatterns 0 (replicate 50 (example_event 0 response_time 900 ''w1''))
     (replicate 20 (example_session 3)) = [micro_pattern]"
proof -
  let ?e = "example_event 0 response_time 900 ''w1''"
  have h: "groupByHour (replicate 50 ?e) = [(getHours (dp_timestamp ?e), replicate 50 ?e)]"
    by (simp add: groupByHour_def grouped_replicate)
  have w: "groupByDayOfWeek (replicate 50 ?e) = [(getDay (dp_timestamp ?e), replicate 50 ?e)]"
    by (simp add: groupByDayOfWeek_def grouped_replicate)
  have d: "groupByDay (replicate 50 ?e) = [(dp_timestamp ?e div msPerDay, replicate 50 ?e)]"
    by (simp add: groupByDay_def grouped_replicate)
  have 1: "analyzeDailyRhythms 0 (replicate 50 ?e) = []"
    by (simp add: analyzeDailyRhythms_def h)
  have 2: "analyzeWeeklyCycles 0 (replicate 50 ?e) = []"
    by (simp add: analyzeWeeklyCycles_def w)
  have 3: "analyzePerformanceWaves 0 (replicate 50 ?e) = []"
    by (simp add: analyzePerformanceWaves_def example_event_def)
  have 4: "analyzeConsistencyPatterns 0 (replicate 50 ?e) = []"
    by (simp add: analyzeConsistencyPatterns_def d)
  show ?thesis
    by (simp add: analyzeTemporalPatterns_def minDataPoints_def confidenceThreshold_def
        1 2 3 4 analyzeSessionPatterns_micro micro_pattern_def)
qed

text \<open>
  C7: an event log of fewer than 50 events yields the empty list, whatever the events and
  the sessions are; and every pattern in a result, for any input, has a confidence of at
  least 0.7.
\<close>

theorem few_events_no_pattern:
  "(length learningData < 50 \<longrightarrow> analyzeTemporalPatterns now learningData studySessions = [])
   \<and> (\<forall>pattern\<in>set (analyzeTemporalPatterns now learningData studySessions).
         tp_confidence pattern \<ge> 0.7)"
  by (auto simp add: analyzeTemporalPatterns_def minDataPoints_def confidenceThreshold_def
      Let_def)

text \<open>
  The theorem on 49 events, and on 50 events with twenty sessions of three minutes, where
  the result is the one pattern of micro sessions with confidence 0.8.
\<close>

theorem few_events_no_pattern_witness:
  "length (replicate 49 (example_event 0 response_time 900 ''w1'')) < 50
   \<and> analyzeTemporalPatterns 0 (replicate 49 (example_event 0 response_time 900 ''w1''))
        (replicate 20 (example_session 3)) = []
   \<and> analyzeTemporalPatterns 0 (replicate 50 (example_event 0 response_time 900 ''w1''))
        (replicate 20 (example_session 3)) = [micro_pattern]
   \<and> tp_confidence micro_pattern \<ge> 0.7"
proof -
  let ?few = "replicate 49 (example_event 0 response_time 900 ''w1'')"
  let ?enough = "replicate 50 (example_event 0 response_time 900 ''w1'')"
  let ?sessions = "replicate 20 (example_session 3)"
  have l: "length ?few < 50" by simp
  have e: "analyzeTemporalPatterns 0 ?few ?sessions = []"
    using l few_events_no_pattern [of ?few 0 ?sessions] by blast
  have r: "analyzeTemporalPatterns 0 ?enough ?sessions = [micro_pattern]"
    by (rule analyzeTemporalPatterns_example)
  then have m: "micro_pattern \<in> set (analyzeTemporalPatterns 0 ?enough ?sessions)"
    by simp
  have "tp_confidence micro_pattern \<ge> 0.7"
    using m few_events_no_pattern [of ?enough 0 ?sessions] by blast
  then show ?thesis using l e r by blast
qed

end
